theory Spec2Isabelle
  imports Main "HOL-Library.Word"
begin

section \<open>JavaScript strings\<close>

text \<open>
  A JavaScript string is a sequence of UTF-16 code units; \<open>length\<close>, \<open>trim\<close> and a
  regular expression without the \<open>u\<close> flag all work on code units. String literals of
  the source are ASCII and are embedded with \<open>js\<close>.
\<close>

type_synonym jschar = "16 word"
type_synonym jsstring = "jschar list"

definition js :: "string \<Rightarrow> jsstring" where
  "js lit = map of_char lit"

text \<open>ECMAScript \<open>LineTerminator\<close>: LF, CR, LINE SEPARATOR, PARAGRAPH SEPARATOR.\<close>

definition isLineTerminator :: "jschar \<Rightarrow> bool" where
  "isLineTerminator c = (c = 0x000A \<or> c = 0x000D \<or> c = 0x2028 \<or> c = 0x2029)"

text \<open>ECMAScript \<open>WhiteSpace\<close>: TAB, VT, FF, ZWNBSP and the Unicode space separators.\<close>

definition isWhiteSpace :: "jschar \<Rightarrow> bool" where
  "isWhiteSpace c =
     (c = 0x0009 \<or> c = 0x000B \<or> c = 0x000C \<or> c = 0xFEFF \<or> c = 0x0020 \<or> c = 0x00A0
      \<or> c = 0x1680 \<or> (0x2000 \<le> c \<and> c \<le> 0x200A) \<or> c = 0x202F \<or> c = 0x205F
      \<or> c = 0x3000)"

text \<open>The class \<open>\s\<close>, which is also what \<open>String.prototype.trim\<close> strips.\<close>

definition cls_space :: "jschar \<Rightarrow> bool" where
  "cls_space c = (isWhiteSpace c \<or> isLineTerminator c)"

definition trim :: "jsstring \<Rightarrow> jsstring" where
  "trim s = rev (dropWhile cls_space (rev (dropWhile cls_space s)))"

section \<open>Regular expressions\<close>

text \<open>
  The fragment of ECMAScript patterns that the source uses: the assertions \<open>^\<close> and
  \<open>$\<close> (no \<open>m\<close> flag: start and end of the input only), a character class, a
  greedily quantified character class \<open>{lo,hi}\<close> (\<open>*\<close> is \<open>{0,}\<close>, \<open>+\<close> is
  \<open>{1,}\<close>) and the lookahead \<open>(?=...)\<close>. A pattern is a sequence of such terms.
\<close>

datatype rx =
    Bol
  | Eol
  | Atom "jschar \<Rightarrow> bool"
  | Rep "jschar \<Rightarrow> bool" nat "nat option"
  | Look "rx list"

fun dec :: "nat option \<Rightarrow> nat option" where
  "dec None = None"
| "dec (Some h) = Some (h - 1)"

text \<open>
  \<open>run p b s\<close>: the backtracking matcher. The pattern \<open>p\<close> matches at the current
  position, where \<open>s\<close> is the rest of the input and \<open>b\<close> tells whether the position is
  the start of the input. A quantifier first tries to take one more character and
  falls back to stopping when its minimum is reached.
\<close>

function run :: "rx list \<Rightarrow> bool \<Rightarrow> jsstring \<Rightarrow> bool" where
  "run [] b s = True"
| "run (Bol # p) b s = (b \<and> run p b s)"
| "run (Eol # p) b s = (s = [] \<and> run p b s)"
| "run (Atom cls # p) b s = (case s of [] \<Rightarrow> False | c # t \<Rightarrow> cls c \<and> run p False t)"
| "run (Rep cls lo hi # p) b s =
     ((case s of [] \<Rightarrow> False
       | c # t \<Rightarrow> hi \<noteq> Some 0 \<and> cls c \<and> run (Rep cls (lo - 1) (dec hi) # p) False t)
      \<or> (lo = 0 \<and> run p b s))"
| "run (Look q # p) b s = (run q b s \<and> run p b s)"
  by pat_completeness auto
termination
  by (relation "measures [\<lambda>(p, b, s). length s, \<lambda>(p, b, s). size_list size p]") auto

text \<open>\<open>RegExp.prototype.test\<close> without \<open>g\<close> or \<open>y\<close>: try every start position in turn.\<close>

fun search :: "rx list \<Rightarrow> bool \<Rightarrow> jsstring \<Rightarrow> bool" where
  "search p b [] = run p b []"
| "search p b (c # t) = (run p b (c # t) \<or> search p False t)"

definition test :: "rx list \<Rightarrow> jsstring \<Rightarrow> bool" where
  "test p s = search p True s"

text \<open>The classes \<open>[a-zA-Z0-9_]\<close>, \<open>[a-zA-Z]\<close>, \<open>[0-9]\<close>, \<open>[^\s@]\<close>, \<open>@\<close>, \<open>\.\<close> and \<open>.\<close>.\<close>

definition cls_word :: "jschar \<Rightarrow> bool" where
  "cls_word c =
     ((0x61 \<le> c \<and> c \<le> 0x7A) \<or> (0x41 \<le> c \<and> c \<le> 0x5A) \<or> (0x30 \<le> c \<and> c \<le> 0x39)
      \<or> c = 0x5F)"

definition cls_letter :: "jschar \<Rightarrow> bool" where
  "cls_letter c = ((0x61 \<le> c \<and> c \<le> 0x7A) \<or> (0x41 \<le> c \<and> c \<le> 0x5A))"

definition cls_digit :: "jschar \<Rightarrow> bool" where
  "cls_digit c = (0x30 \<le> c \<and> c \<le> 0x39)"

definition cls_not_space_at :: "jschar \<Rightarrow> bool" where
  "cls_not_space_at c = (\<not> (cls_space c \<or> c = 0x40))"

definition cls_at :: "jschar \<Rightarrow> bool" where
  "cls_at c = (c = 0x40)"

definition cls_period :: "jschar \<Rightarrow> bool" where
  "cls_period c = (c = 0x2E)"

definition cls_dot :: "jschar \<Rightarrow> bool" where
  "cls_dot c = (\<not> isLineTerminator c)"

text \<open>\<^verbatim>\<open>/^[a-zA-Z0-9_]{3,20}$/\<close>\<close>

definition usernameRegex :: "rx list" where
  "usernameRegex = [Bol, Rep cls_word 3 (Some 20), Eol]"

text \<open>\<^verbatim>\<open>/^[^\s@]+@[^\s@]+\.[^\s@]+$/\<close>\<close>

definition emailRegex :: "rx list" where
  "emailRegex =
     [Bol, Rep cls_not_space_at 1 None, Atom cls_at, Rep cls_not_space_at 1 None,
      Atom cls_period, Rep cls_not_space_at 1 None, Eol]"

text \<open>\<^verbatim>\<open>/(?=.*[a-zA-Z])(?=.*[0-9])/\<close>\<close>

definition passwordRegex :: "rx list" where
  "passwordRegex =
     [Look [Rep cls_dot 0 None, Atom cls_letter], Look [Rep cls_dot 0 None, Atom cls_digit]]"

section \<open>The page\<close>

text \<open>
  The HTML is not part of the source, so the document is a parameter: a store from
  node references to elements. \<open>ById i\<close> is the node \<open>document.getElementById(i)\<close>,
  \<open>Query i sel\<close> the node \<open>document.getElementById(i).querySelector(sel)\<close>; a reference
  outside the domain is a lookup that returns \<open>null\<close>. An element carries the
  properties the source reads or writes.
\<close>

datatype ref = ById string | Query string string

record element =
  val :: jsstring
  checked :: bool
  disabled :: bool
  textContent :: jsstring
  classList :: "string set"

record notification =
  className :: string
  message :: jsstring

text \<open>
  The closures handed to \<open>setTimeout\<close>, as data. \<open>SimulatedCall k\<close> is the timer of
  \<open>simulateAPICall\<close>, which settles the promise the handler \<open>k\<close> awaits.
\<close>

datatype cont = RegisterCont jsstring | LoginCont jsstring bool | ForgotCont

datatype task =
    SimulatedCall cont
  | RemoveNotification notification
  | GoHomepage
  | GoLoginPrefill jsstring

text \<open>
  \<open>notifications\<close> are the children appended to \<open>#notificationContainer\<close>, \<open>href\<close> is
  \<open>window.location.href\<close>, \<open>timers\<close> the pending timeouts with their delays.
\<close>

record state =
  document :: "ref \<rightharpoonup> element"
  notifications :: "notification list"
  localStorage :: "string \<rightharpoonup> jsstring"
  href :: string
  timers :: "(nat \<times> task) list"

datatype completion = Normal | Throw

definition modify :: "ref \<Rightarrow> (element \<Rightarrow> element) \<Rightarrow> state \<Rightarrow> state" where
  "modify r f s =
     (case document s r of
        None \<Rightarrow> s
      | Some e \<Rightarrow> s\<lparr>document := (document s)(r \<mapsto> f e)\<rparr>)"

definition showFieldError :: "string \<Rightarrow> jsstring \<Rightarrow> state \<Rightarrow> state" where
  "showFieldError elementId msg s =
     modify (ById elementId)
       (\<lambda>e. e\<lparr>textContent := msg, classList := insert ''show'' (classList e)\<rparr>) s"

definition clearFieldError :: "string \<Rightarrow> state \<Rightarrow> state" where
  "clearFieldError elementId s =
     modify (ById elementId)
       (\<lambda>e. e\<lparr>textContent := [], classList := classList e - {''show''}\<rparr>) s"

text \<open>\<^verbatim>\<open>if (errorElementId) f(errorElementId)\<close>: \<open>null\<close> and the empty string are falsy.\<close>

fun whenId :: "string option \<Rightarrow> (string \<Rightarrow> state \<Rightarrow> state) \<Rightarrow> state \<Rightarrow> state" where
  "whenId None f s = s"
| "whenId (Some i) f s = (if i = [] then s else f i s)"

section \<open>Field validators\<close>

text \<open>
  The argument of a validator is a string or, when it runs as an \<open>input\<close> listener, the
  event; \<open>Event v\<close> is an event whose \<open>target.value\<close> is \<open>v\<close>. The receiver is the
  class \<open>AuthController\<close>. The class body defines each validator twice; the later
  definition is the one in effect and keeps the source's name, the earlier one has the
  suffix \<open>_1st\<close>.
\<close>

datatype arg = Str jsstring | Event jsstring

definition validateUsername_1st :: "arg \<Rightarrow> string option \<Rightarrow> state \<Rightarrow> bool \<times> state" where
  "validateUsername_1st a errorElementId0 s =
     (let (username, errorElementId) =
            (case a of
               Event v \<Rightarrow> (trim v, Some ''registerUsernameError'')
             | Str u \<Rightarrow> (u, errorElementId0))
      in if username = [] then
           (False, whenId errorElementId (\<lambda>i. showFieldError i (js ''Username is required'')) s)
         else if \<not> test usernameRegex username then
           (False, whenId errorElementId (\<lambda>i. showFieldError i
              (js ''Username must be 3-20 characters, letters, numbers, and underscores only'')) s)
         else (True, whenId errorElementId clearFieldError s))"

definition validateEmail_1st :: "arg \<Rightarrow> string option \<Rightarrow> state \<Rightarrow> bool \<times> state" where
  "validateEmail_1st a errorElementId0 s =
     (let (email, errorElementId) =
            (case a of
               Event v \<Rightarrow> (trim v, Some ''registerEmailError'')
             | Str u \<Rightarrow> (u, errorElementId0))
      in if email = [] then
           (False, whenId errorElementId (\<lambda>i. showFieldError i (js ''Email is required'')) s)
         else if \<not> test emailRegex email then
           (False, whenId errorElementId (\<lambda>i. showFieldError i
              (js ''Please enter a valid email address'')) s)
         else (True, whenId errorElementId clearFieldError s))"

definition validatePassword_1st :: "arg \<Rightarrow> string option \<Rightarrow> state \<Rightarrow> bool \<times> state" where
  "validatePassword_1st a errorElementId0 s =
     (let (password, errorElementId) =
            (case a of
               Event v \<Rightarrow> (v, Some ''registerPasswordError'')
             | Str u \<Rightarrow> (u, errorElementId0))
      in if password = [] then
           (False, whenId errorElementId (\<lambda>i. showFieldError i (js ''Password is required'')) s)
         else if length password < 8 then
           (False, whenId errorElementId (\<lambda>i. showFieldError i
              (js ''Password must be at least 8 characters long'')) s)
         else if \<not> test passwordRegex password then
           (False, whenId errorElementId (\<lambda>i. showFieldError i
              (js ''Password must contain both letters and numbers'')) s)
         else (True, whenId errorElementId clearFieldError s))"

text \<open>
  \<open>validatePasswordConfirm\<close> takes the event; \<open>v\<close> is its \<open>target.value\<close>. Reading
  \<open>.value\<close> of a missing \<open>#registerPassword\<close> throws.
\<close>

definition validatePasswordConfirm_1st :: "jsstring \<Rightarrow> state \<Rightarrow> completion \<times> state" where
  "validatePasswordConfirm_1st v s =
     (case document s (ById ''registerPassword'') of
        None \<Rightarrow> (Throw, s)
      | Some el \<Rightarrow>
          (let password = val el; confirmPassword = v
           in if confirmPassword \<noteq> [] \<and> password \<noteq> confirmPassword then
                (Normal, showFieldError ''confirmPasswordError'' (js ''Passwords do not match'') s)
              else (Normal, clearFieldError ''confirmPasswordError'' s)))"

definition validateUsername :: "arg \<Rightarrow> string option \<Rightarrow> state \<Rightarrow> bool \<times> state" where
  "validateUsername a errorElementId0 s =
     (let (username, errorElementId) =
            (case a of
               Event v \<Rightarrow> (trim v, Some ''registerUsernameError'')
             | Str u \<Rightarrow> (u, errorElementId0))
      in if username = [] then
           (False, whenId errorElementId (\<lambda>i. showFieldError i (js ''Username is required'')) s)
         else if \<not> test usernameRegex username then
           (False, whenId errorElementId (\<lambda>i. showFieldError i
              (js ''Username must be 3-20 characters, letters, numbers, and underscores only'')) s)
         else (True, whenId errorElementId clearFieldError s))"

definition validateEmail :: "arg \<Rightarrow> string option \<Rightarrow> state \<Rightarrow> bool \<times> state" where
  "validateEmail a errorElementId0 s =
     (let (email, errorElementId) =
            (case a of
               Event v \<Rightarrow> (trim v, Some ''registerEmailError'')
             | Str u \<Rightarrow> (u, errorElementId0))
      in if email = [] then
           (False, whenId errorElementId (\<lambda>i. showFieldError i (js ''Email is required'')) s)
         else if \<not> test emailRegex email then
           (False, whenId errorElementId (\<lambda>i. showFieldError i
              (js ''Please enter a valid email address'')) s)
         else (True, whenId errorElementId clearFieldError s))"

definition validatePassword :: "arg \<Rightarrow> string option \<Rightarrow> state \<Rightarrow> bool \<times> state" where
  "validatePassword a errorElementId0 s =
     (let (password, errorElementId) =
            (case a of
               Event v \<Rightarrow> (v, Some ''registerPasswordError'')
             | Str u \<Rightarrow> (u, errorElementId0))
      in if password = [] then
           (False, whenId errorElementId (\<lambda>i. showFieldError i (js ''Password is required'')) s)
         else if length password < 8 then
           (False, whenId errorElementId (\<lambda>i. showFieldError i
              (js ''Password must be at least 8 characters long'')) s)
         else if \<not> test passwordRegex password then
           (False, whenId errorElementId (\<lambda>i. showFieldError i
              (js ''Password must contain both letters and numbers'')) s)
         else (True, whenId errorElementId clearFieldError s))"

definition validatePasswordConfirm :: "jsstring \<Rightarrow> state \<Rightarrow> completion \<times> state" where
  "validatePasswordConfirm v s =
     (case document s (ById ''registerPassword'') of
        None \<Rightarrow> (Throw, s)
      | Some el \<Rightarrow>
          (let password = val el; confirmPassword = v
           in if confirmPassword \<noteq> [] \<and> password \<noteq> confirmPassword then
                (Normal, showFieldError ''confirmPasswordError'' (js ''Passwords do not match'') s)
              else (Normal, clearFieldError ''confirmPasswordError'' s)))"

section \<open>Form validation\<close>

definition validateLoginForm :: "jsstring \<Rightarrow> jsstring \<Rightarrow> state \<Rightarrow> bool \<times> state" where
  "validateLoginForm username password s =
     (let (v1, s1) =
            (if username = [] then
               (False, showFieldError ''loginUsernameError'' (js ''Username is required'') s)
             else (True, clearFieldError ''loginUsernameError'' s));
          (v2, s2) =
            (if password = [] then
               (False, showFieldError ''loginPasswordError'' (js ''Password is required'') s1)
             else (v1, clearFieldError ''loginPasswordError'' s1))
      in (v2, s2))"

record formData =
  username :: jsstring
  email :: jsstring
  password :: jsstring
  confirmPassword :: jsstring
  acceptTerms :: bool

definition validateRegistrationForm :: "formData \<Rightarrow> state \<Rightarrow> bool \<times> state" where
  "validateRegistrationForm fd s =
     (let (r1, s1) = validateUsername (Str (username fd)) (Some ''registerUsernameError'') s;
          v1 = r1;
          (r2, s2) = validateEmail (Str (email fd)) (Some ''registerEmailError'') s1;
          v2 = (if \<not> r2 then False else v1);
          (r3, s3) = validatePassword (Str (password fd)) (Some ''registerPasswordError'') s2;
          v3 = (if \<not> r3 then False else v2);
          (v4, s4) =
            (if password fd \<noteq> confirmPassword fd then
               (False, showFieldError ''confirmPasswordError'' (js ''Passwords do not match'') s3)
             else (v3, clearFieldError ''confirmPasswordError'' s3));
          (v5, s5) =
            (if \<not> acceptTerms fd then
               (False, showFieldError ''termsError''
                  (js ''You must accept the terms to continue'') s4)
             else (v4, clearFieldError ''termsError'' s4))
      in (v5, s5))"

section \<open>Helpers of the user interface\<close>

text \<open>
  \<open>setLoadingState\<close> looks up the button and its two parts first; a missing button
  throws at once, a missing part throws when its \<open>classList\<close> is read, after the
  assignments before it have taken effect.
\<close>

definition setLoadingState :: "string \<Rightarrow> bool \<Rightarrow> state \<Rightarrow> completion \<times> state" where
  "setLoadingState buttonId isLoading s =
     (case document s (ById buttonId) of
        None \<Rightarrow> (Throw, s)
      | Some button \<Rightarrow>
          (let s1 = modify (ById buttonId) (\<lambda>e. e\<lparr>disabled := isLoading\<rparr>) s
           in case document s (Query buttonId ''.btn-text'') of
                None \<Rightarrow> (Throw, s1)
              | Some txt \<Rightarrow>
                  (let s2 = modify (Query buttonId ''.btn-text'')
                              (\<lambda>e. e\<lparr>classList :=
                                 (if isLoading then insert ''hidden'' (classList e)
                                  else classList e - {''hidden''})\<rparr>) s1
                   in case document s (Query buttonId ''.loading-spinner'') of
                        None \<Rightarrow> (Throw, s2)
                      | Some spinner \<Rightarrow>
                          (Normal, modify (Query buttonId ''.loading-spinner'')
                             (\<lambda>e. e\<lparr>classList :=
                                (if isLoading then classList e - {''hidden''}
                                 else insert ''hidden'' (classList e))\<rparr>) s2))))"

definition showNotification :: "jsstring \<Rightarrow> string \<Rightarrow> state \<Rightarrow> completion \<times> state" where
  "showNotification msg type s =
     (case document s (ById ''notificationContainer'') of
        None \<Rightarrow> (Throw, s)
      | Some container \<Rightarrow>
          (let n = \<lparr>className = ''notification notification-'' @ type, message = msg\<rparr>
           in (Normal, s\<lparr>notifications := notifications s @ [n],
                          timers := timers s @ [(5000, RemoveNotification n)]\<rparr>)))"

text \<open>
  \<open>simulateAPICall\<close> starts a timer; the promise it returns settles when the timer
  fires. The awaiting handler is the timer's continuation.
\<close>

definition simulateAPICall :: "nat \<Rightarrow> cont \<Rightarrow> state \<Rightarrow> state" where
  "simulateAPICall delay k s = s\<lparr>timers := timers s @ [(delay, SimulatedCall k)]\<rparr>"

text \<open>
  The three navigation methods assign \<open>window.location.href\<close>. The assignment starts
  a navigation and returns: the statements after it still run in the current
  document, and so do its timers, until the browser completes the navigation
  (\<open>load\<close> below), which discards that document with everything written to it.
\<close>

definition goToLogin :: "state \<Rightarrow> state" where
  "goToLogin s = s\<lparr>href := ''login.html''\<rparr>"

definition goToRegister :: "state \<Rightarrow> state" where
  "goToRegister s = s\<lparr>href := ''registration.html''\<rparr>"

definition goToReset :: "state \<Rightarrow> state" where
  "goToReset s = s\<lparr>href := ''ResetPassword.html''\<rparr>"

text \<open>\<^verbatim>\<open>try { body } catch (error) { handler } finally { fin }\<close>\<close>

definition try_catch_finally ::
  "(state \<Rightarrow> completion \<times> state) \<Rightarrow> (state \<Rightarrow> completion \<times> state) \<Rightarrow>
   (state \<Rightarrow> completion \<times> state) \<Rightarrow> state \<Rightarrow> completion \<times> state" where
  "try_catch_finally body handler fin s =
     (let (c1, s1) = body s;
          (c2, s2) = (if c1 = Throw then handler s1 else (Normal, s1));
          (c3, s3) = fin s2
      in (if c3 = Throw then Throw else c2, s3))"

section \<open>Submit handlers\<close>

text \<open>
  A handler runs up to its \<open>await\<close>; the rest of it runs when the timer of the
  simulated call fires (\<open>resume\<close>). The flag of \<open>resume\<close> is the outcome of
  \<^verbatim>\<open>Math.random() > 0.9\<close>, which rejects the promise.
\<close>

definition readRegistrationForm :: "state \<Rightarrow> formData option" where
  "readRegistrationForm s =
     (case document s (ById ''registerUsername'') of None \<Rightarrow> None | Some eu \<Rightarrow>
      case document s (ById ''registerEmail'') of None \<Rightarrow> None | Some ee \<Rightarrow>
      case document s (ById ''registerPassword'') of None \<Rightarrow> None | Some ep \<Rightarrow>
      case document s (ById ''confirmPassword'') of None \<Rightarrow> None | Some ec \<Rightarrow>
      case document s (ById ''acceptTerms'') of None \<Rightarrow> None | Some et \<Rightarrow>
        Some \<lparr>username = trim (val eu), email = trim (val ee), password = val ep,
              confirmPassword = val ec, acceptTerms = checked et\<rparr>)"

definition register_catch :: "state \<Rightarrow> completion \<times> state" where
  "register_catch = showNotification (js ''Registration failed. Please try again.'') ''error''"

definition register_finally :: "state \<Rightarrow> completion \<times> state" where
  "register_finally = setLoadingState ''registerBtn'' False"

definition handleRegister :: "state \<Rightarrow> completion \<times> state" where
  "handleRegister s =
     (case readRegistrationForm s of
        None \<Rightarrow> (Throw, s)
      | Some fd \<Rightarrow>
          (let (ok, s1) = validateRegistrationForm fd s
           in if \<not> ok then (Normal, s1)
              else case setLoadingState ''registerBtn'' True s1 of
                     (Throw, s2) \<Rightarrow>
                       try_catch_finally (\<lambda>s. (Throw, s)) register_catch register_finally s2
                   | (Normal, s2) \<Rightarrow> (Normal, simulateAPICall 2000 (RegisterCont (username fd)) s2)))"

definition register_then :: "jsstring \<Rightarrow> state \<Rightarrow> completion \<times> state" where
  "register_then u s =
     (case showNotification (js ''Account created successfully! Welcome to PawPals!'')
             ''success'' s of
        (Throw, s1) \<Rightarrow> (Throw, s1)
      | (Normal, s1) \<Rightarrow> (Normal, s1\<lparr>timers := timers s1 @ [(1500, GoLoginPrefill u)]\<rparr>))"

definition readLoginForm :: "state \<Rightarrow> (jsstring \<times> jsstring \<times> bool) option" where
  "readLoginForm s =
     (case document s (ById ''loginUsername'') of None \<Rightarrow> None | Some eu \<Rightarrow>
      case document s (ById ''loginPassword'') of None \<Rightarrow> None | Some ep \<Rightarrow>
      case document s (ById ''rememberMe'') of None \<Rightarrow> None | Some er \<Rightarrow>
        Some (trim (val eu), val ep, checked er))"

definition login_catch :: "state \<Rightarrow> completion \<times> state" where
  "login_catch = showNotification (js ''Login failed. Please check your credentials.'') ''error''"

definition login_finally :: "state \<Rightarrow> completion \<times> state" where
  "login_finally = setLoadingState ''loginBtn'' False"

definition handleLogin :: "state \<Rightarrow> completion \<times> state" where
  "handleLogin s =
     (case readLoginForm s of
        None \<Rightarrow> (Throw, s)
      | Some (u, p, rememberMe) \<Rightarrow>
          (let (ok, s1) = validateLoginForm u p s
           in if \<not> ok then (Normal, s1)
              else case setLoadingState ''loginBtn'' True s1 of
                     (Throw, s2) \<Rightarrow>
                       try_catch_finally (\<lambda>s. (Throw, s)) login_catch login_finally s2
                   | (Normal, s2) \<Rightarrow> (Normal, simulateAPICall 1500 (LoginCont u rememberMe) s2)))"

definition login_then :: "jsstring \<Rightarrow> bool \<Rightarrow> state \<Rightarrow> completion \<times> state" where
  "login_then u rememberMe s =
     (let s1 = (if rememberMe then s\<lparr>localStorage := (localStorage s)(''rememberedUsername'' \<mapsto> u)\<rparr>
                else s\<lparr>localStorage := (localStorage s)(''rememberedUsername'' := None)\<rparr>)
      in case showNotification (js ''Login successful! Welcome back to PawPals!'')
                ''success'' s1 of
           (Throw, s2) \<Rightarrow> (Throw, s2)
         | (Normal, s2) \<Rightarrow> (Normal, s2\<lparr>timers := timers s2 @ [(1500, GoHomepage)]\<rparr>))"

definition forgot_catch :: "state \<Rightarrow> completion \<times> state" where
  "forgot_catch =
     showNotification (js ''Failed to send reset link. Please try again.'') ''error''"

definition forgot_finally :: "state \<Rightarrow> completion \<times> state" where
  "forgot_finally = setLoadingState ''forgotBtn'' False"

definition handleForgotPassword :: "state \<Rightarrow> completion \<times> state" where
  "handleForgotPassword s =
     (case document s (ById ''forgotEmail'') of
        None \<Rightarrow> (Throw, s)
      | Some ee \<Rightarrow>
          (let (ok, s1) = validateEmail (Str (trim (val ee))) (Some ''forgotEmailError'') s
           in if \<not> ok then (Normal, s1)
              else case setLoadingState ''forgotBtn'' True s1 of
                     (Throw, s2) \<Rightarrow>
                       try_catch_finally (\<lambda>s. (Throw, s)) forgot_catch forgot_finally s2
                   | (Normal, s2) \<Rightarrow> (Normal, simulateAPICall 1500 ForgotCont s2)))"

text \<open>\<open>classList.add\<close> and \<open>classList.remove\<close> on a node that may be \<open>null\<close>.\<close>

definition classList_add :: "ref \<Rightarrow> string \<Rightarrow> state \<Rightarrow> completion \<times> state" where
  "classList_add r c s =
     (case document s r of
        None \<Rightarrow> (Throw, s)
      | Some e \<Rightarrow> (Normal, modify r (\<lambda>e. e\<lparr>classList := insert c (classList e)\<rparr>) s))"

definition classList_remove :: "ref \<Rightarrow> string \<Rightarrow> state \<Rightarrow> completion \<times> state" where
  "classList_remove r c s =
     (case document s r of
        None \<Rightarrow> (Throw, s)
      | Some e \<Rightarrow> (Normal, modify r (\<lambda>e. e\<lparr>classList := classList e - {c}\<rparr>) s))"

definition forgot_then :: "state \<Rightarrow> completion \<times> state" where
  "forgot_then s =
     (case classList_add (ById ''forgotPasswordForm'') ''hidden'' s of
        (Throw, s1) \<Rightarrow> (Throw, s1)
      | (Normal, s1) \<Rightarrow>
     (case classList_remove (ById ''resetSuccessMessage'') ''hidden'' s1 of
        (Throw, s2) \<Rightarrow> (Throw, s2)
      | (Normal, s2) \<Rightarrow>
     (case classList_remove (ById ''backToLogin'') ''hidden'' s2 of
        (Throw, s3) \<Rightarrow> (Throw, s3)
      | (Normal, s3) \<Rightarrow>
          showNotification (js ''Password reset link sent to your email!'') ''success'' s3)))"

fun resume :: "cont \<Rightarrow> bool \<Rightarrow> state \<Rightarrow> completion \<times> state" where
  "resume (RegisterCont u) rejected s =
     try_catch_finally (if rejected then (\<lambda>s. (Throw, s)) else register_then u)
       register_catch register_finally s"
| "resume (LoginCont u rememberMe) rejected s =
     try_catch_finally (if rejected then (\<lambda>s. (Throw, s)) else login_then u rememberMe)
       login_catch login_finally s"
| "resume ForgotCont rejected s =
     try_catch_finally (if rejected then (\<lambda>s. (Throw, s)) else forgot_then)
       forgot_catch forgot_finally s"

section \<open>Timers\<close>

text \<open>
  \<open>run_task\<close> is the body of a timeout; \<open>fire i\<close> takes the \<open>i\<close>-th pending timeout
  off the list and runs it. The flag is the outcome of \<^verbatim>\<open>Math.random() > 0.9\<close> and
  matters to a simulated call only.
\<close>

fun run_task :: "task \<Rightarrow> bool \<Rightarrow> state \<Rightarrow> completion \<times> state" where
  "run_task (SimulatedCall k) rejected s = resume k rejected s"
| "run_task (RemoveNotification n) rejected s =
     (Normal, s\<lparr>notifications := remove1 n (notifications s)\<rparr>)"
| "run_task GoHomepage rejected s = (Normal, s\<lparr>href := ''homepage.html''\<rparr>)"
| "run_task (GoLoginPrefill u) rejected s =
     (let s1 = goToLogin s
      in case document s1 (ById ''loginUsername'') of
           None \<Rightarrow> (Throw, s1)
         | Some e \<Rightarrow> (Normal, modify (ById ''loginUsername'') (\<lambda>e. e\<lparr>val := u\<rparr>) s1))"

definition fire :: "nat \<Rightarrow> bool \<Rightarrow> state \<Rightarrow> completion \<times> state" where
  "fire i rejected s =
     (if i < length (timers s) then
        run_task (snd (timers s ! i)) rejected
          (s\<lparr>timers := take i (timers s) @ drop (Suc i) (timers s)\<rparr>)
      else (Normal, s))"

section \<open>Page load\<close>

text \<open>
  \<open>loadRememberedUser\<close> writes the stored username into the login form; a stored
  empty string is falsy. \<open>init\<close> calls \<open>setupEventListeners\<close>, which registers the
  listeners and leaves the state as it is, and then \<open>loadRememberedUser\<close>.
\<close>

definition loadRememberedUser :: "state \<Rightarrow> completion \<times> state" where
  "loadRememberedUser s =
     (case localStorage s ''rememberedUsername'' of
        None \<Rightarrow> (Normal, s)
      | Some rememberedUsername \<Rightarrow>
          if rememberedUsername = [] then (Normal, s)
          else case document s (ById ''loginUsername'') of
                 None \<Rightarrow> (Throw, s)
               | Some e \<Rightarrow>
                   (let s1 = modify (ById ''loginUsername'')
                               (\<lambda>e. e\<lparr>val := rememberedUsername\<rparr>) s
                    in case document s1 (ById ''rememberMe'') of
                         None \<Rightarrow> (Throw, s1)
                       | Some c \<Rightarrow>
                           (Normal, modify (ById ''rememberMe'') (\<lambda>e. e\<lparr>checked := True\<rparr>) s1)))"

definition init :: "state \<Rightarrow> completion \<times> state" where
  "init s = loadRememberedUser s"

text \<open>
  \<open>load site s\<close>: the browser completes the navigation to the location last assigned.
  The HTML of the pages is not part of the source, so \<open>site\<close> gives the document of
  each location. The old document, its notifications and its timers are gone, the
  storage stays, and the \<open>DOMContentLoaded\<close> listener of the new page runs \<open>init\<close>
  (on a host other than \<open>localhost\<close>, where the listener stops there).
\<close>

definition load :: "(string \<Rightarrow> (ref \<rightharpoonup> element)) \<Rightarrow> state \<Rightarrow> completion \<times> state" where
  "load site s =
     init \<lparr>document = site (href s), notifications = [], localStorage = localStorage s,
           href = href s, timers = []\<rparr>"

text \<open>What an error element displays: its text and whether it carries the class \<open>show\<close>.\<close>

definition fieldError :: "string \<Rightarrow> state \<Rightarrow> (jsstring \<times> bool) option" where
  "fieldError i s =
     map_option (\<lambda>e. (textContent e, ''show'' \<in> classList e)) (document s (ById i))"

section \<open>The rules as the specification words them\<close>

text \<open>
  The validators are compared with these predicates: a username is 3 to 20 characters
  from \<open>[a-zA-Z0-9_]\<close>; an email is three non-empty runs of characters other than
  white space and \<open>@\<close>, joined by \<open>@\<close> and a period; a password has at least 8
  characters, a letter among them and a digit among them.
\<close>

definition username_pattern :: "jsstring \<Rightarrow> bool" where
  "username_pattern s = (3 \<le> length s \<and> length s \<le> 20 \<and> list_all cls_word s)"

definition email_pattern :: "jsstring \<Rightarrow> bool" where
  "email_pattern s =
     (\<exists>a b c. s = a @ [0x40] @ b @ [0x2E] @ c \<and> a \<noteq> [] \<and> b \<noteq> [] \<and> c \<noteq> []
        \<and> list_all cls_not_space_at a \<and> list_all cls_not_space_at b \<and> list_all cls_not_space_at c)"

definition password_rule :: "jsstring \<Rightarrow> bool" where
  "password_rule s = (8 \<le> length s \<and> list_ex cls_letter s \<and> list_ex cls_digit s)"

section \<open>Observations on states\<close>

text \<open>
  \<open>touches_only R s s'\<close>: from \<open>s\<close> to \<open>s'\<close> nothing changed but the elements at the
  references in \<open>R\<close>, and no element appeared or disappeared.
\<close>

definition touches_only :: "ref set \<Rightarrow> state \<Rightarrow> state \<Rightarrow> bool" where
  "touches_only R s s' =
     (notifications s' = notifications s \<and> localStorage s' = localStorage s
      \<and> href s' = href s \<and> timers s' = timers s
      \<and> (\<forall>r. r \<notin> R \<longrightarrow> document s' r = document s r)
      \<and> (\<forall>r. document s' r = None \<longleftrightarrow> document s r = None))"

text \<open>The last two steps of \<open>validateRegistrationForm\<close>, named for the proofs.\<close>

definition confirm_step :: "formData \<Rightarrow> state \<Rightarrow> state" where
  "confirm_step fd s =
     (if password fd \<noteq> confirmPassword fd then
        showFieldError ''confirmPasswordError'' (js ''Passwords do not match'') s
      else clearFieldError ''confirmPasswordError'' s)"

definition terms_step :: "formData \<Rightarrow> state \<Rightarrow> state" where
  "terms_step fd s =
     (if \<not> acceptTerms fd then
        showFieldError ''termsError'' (js ''You must accept the terms to continue'') s
      else clearFieldError ''termsError'' s)"

definition register_errors :: "ref set" where
  "register_errors =
     {ById ''registerUsernameError'', ById ''registerEmailError'', ById ''registerPasswordError'',
      ById ''confirmPasswordError'', ById ''termsError''}"

text \<open>\<open>present rs s\<close>: the document of \<open>s\<close> has an element at every reference of \<open>rs\<close>.\<close>

definition present :: "ref list \<Rightarrow> state \<Rightarrow> bool" where
  "present rs s = list_all (\<lambda>r. document s r \<noteq> None) rs"

text \<open>The submit button and the two parts that \<open>setLoadingState\<close> toggles.\<close>

definition button_parts :: "string \<Rightarrow> ref list" where
  "button_parts b = [ById b, Query b ''.btn-text'', Query b ''.loading-spinner'']"

text \<open>
  \<open>unsubmitted b s s'\<close>: between \<open>s\<close> and \<open>s'\<close> no timer was started (so no simulated
  call), no notification was appended, nothing was stored, no navigation happened, and
  the button \<open>b\<close> and its parts are as they were (no loading state).
\<close>

definition unsubmitted :: "string \<Rightarrow> state \<Rightarrow> state \<Rightarrow> bool" where
  "unsubmitted b s s' =
     (timers s' = timers s \<and> notifications s' = notifications s \<and> href s' = href s
      \<and> localStorage s' = localStorage s
      \<and> map (document s') (button_parts b) = map (document s) (button_parts b))"

definition success_notification :: notification where
  "success_notification =
     \<lparr>className = ''notification notification-success'',
      message = js ''Account created successfully! Welcome to PawPals!''\<rparr>"

section \<open>Example pages\<close>

text \<open>
  Concrete documents on which the theorems below are exercised: every element the
  handlers address, with the given field values.
\<close>

definition blank :: element where
  "blank = \<lparr>val = [], checked = False, disabled = False, textContent = [], classList = {}\<rparr>"

definition page :: "(ref \<times> element) list \<Rightarrow> state" where
  "page els =
     \<lparr>document = map_of els, notifications = [], localStorage = Map.empty,
      href = ''registration.html'', timers = []\<rparr>"

definition chrome :: "string \<Rightarrow> (ref \<times> element) list" where
  "chrome b =
     [(ById b, blank), (Query b ''.btn-text'', blank),
      (Query b ''.loading-spinner'', blank\<lparr>classList := {''hidden''}\<rparr>),
      (ById ''notificationContainer'', blank)]"

definition registration_page :: "jsstring \<Rightarrow> jsstring \<Rightarrow> jsstring \<Rightarrow> jsstring \<Rightarrow> bool \<Rightarrow> state" where
  "registration_page u e p c t =
     page ([(ById ''registerUsername'', blank\<lparr>val := u\<rparr>),
            (ById ''registerEmail'', blank\<lparr>val := e\<rparr>),
            (ById ''registerPassword'', blank\<lparr>val := p\<rparr>),
            (ById ''confirmPassword'', blank\<lparr>val := c\<rparr>),
            (ById ''acceptTerms'', blank\<lparr>checked := t\<rparr>),
            (ById ''registerUsernameError'', blank), (ById ''registerEmailError'', blank),
            (ById ''registerPasswordError'', blank), (ById ''confirmPasswordError'', blank),
            (ById ''termsError'', blank), (ById ''loginUsername'', blank)]
           @ chrome ''registerBtn'')"

text \<open>
  A registration page of its own, as the separate locations \<open>registration.html\<close> and
  \<open>login.html\<close> have it: the registration form without the login username field.
\<close>

definition registration_html :: "jsstring \<Rightarrow> jsstring \<Rightarrow> jsstring \<Rightarrow> jsstring \<Rightarrow> bool \<Rightarrow> state" where
  "registration_html u e p c t =
     page ([(ById ''registerUsername'', blank\<lparr>val := u\<rparr>),
            (ById ''registerEmail'', blank\<lparr>val := e\<rparr>),
            (ById ''registerPassword'', blank\<lparr>val := p\<rparr>),
            (ById ''confirmPassword'', blank\<lparr>val := c\<rparr>),
            (ById ''acceptTerms'', blank\<lparr>checked := t\<rparr>),
            (ById ''registerUsernameError'', blank), (ById ''registerEmailError'', blank),
            (ById ''registerPasswordError'', blank), (ById ''confirmPasswordError'', blank),
            (ById ''termsError'', blank)]
           @ chrome ''registerBtn'')"

definition login_page :: "jsstring \<Rightarrow> jsstring \<Rightarrow> bool \<Rightarrow> state" where
  "login_page u p r =
     page ([(ById ''loginUsername'', blank\<lparr>val := u\<rparr>),
            (ById ''loginPassword'', blank\<lparr>val := p\<rparr>),
            (ById ''rememberMe'', blank\<lparr>checked := r\<rparr>),
            (ById ''loginUsernameError'', blank), (ById ''loginPasswordError'', blank)]
           @ chrome ''loginBtn'')"

definition reset_page :: "jsstring \<Rightarrow> state" where
  "reset_page e =
     page ([(ById ''forgotEmail'', blank\<lparr>val := e\<rparr>), (ById ''forgotEmailError'', blank)]
           @ chrome ''forgotBtn'')"

section \<open>Lemmas\<close>

subsection \<open>The matcher\<close>

lemma run_Rep_iff:
  "run (Rep cls lo hi # p) b s \<longleftrightarrow>
     (\<exists>u v. s = u @ v \<and> lo \<le> length u \<and> (case hi of None \<Rightarrow> True | Some h \<Rightarrow> length u \<le> h)
        \<and> list_all cls u \<and> run p (b \<and> u = []) v)"
proof (induction s arbitrary: lo hi b)
  case Nil
  then show ?case by (auto split: option.splits)
next
  case (Cons c t)
  have step: "run (Rep cls lo hi # p) b (c # t) \<longleftrightarrow>
      (hi \<noteq> Some 0 \<and> cls c \<and> run (Rep cls (lo - 1) (dec hi) # p) False t) \<or> (lo = 0 \<and> run p b (c # t))"
    by simp
  show ?case
  proof
    assume "run (Rep cls lo hi # p) b (c # t)"
    with step consider
      (take) "hi \<noteq> Some 0" "cls c" "run (Rep cls (lo - 1) (dec hi) # p) False t"
      | (stop) "lo = 0" "run p b (c # t)" by blast
    then show "\<exists>u v. c # t = u @ v \<and> lo \<le> length u \<and> (case hi of None \<Rightarrow> True | Some h \<Rightarrow> length u \<le> h)
        \<and> list_all cls u \<and> run p (b \<and> u = []) v"
    proof cases
      case take
      from take(3) have "\<exists>u v. t = u @ v \<and> lo - 1 \<le> length u
          \<and> (case dec hi of None \<Rightarrow> True | Some h \<Rightarrow> length u \<le> h)
          \<and> list_all cls u \<and> run p (False \<and> u = []) v"
        by (rule Cons.IH [THEN iffD1])
      then obtain u v where uv: "t = u @ v" "lo - 1 \<le> length u"
        "(case dec hi of None \<Rightarrow> True | Some h \<Rightarrow> length u \<le> h)" "list_all cls u" "run p False v"
        by auto
      have "c # t = (c # u) @ v" using uv by simp
      moreover have "lo \<le> length (c # u)" using uv by simp
      moreover have "(case hi of None \<Rightarrow> True | Some h \<Rightarrow> length (c # u) \<le> h)"
        using uv(3) take(1) by (cases hi) auto
      moreover have "list_all cls (c # u)" using uv take by simp
      moreover have "run p (b \<and> c # u = []) v" using uv by simp
      ultimately show ?thesis by blast
    next
      case stop
      then have "c # t = [] @ (c # t) \<and> lo \<le> length ([]::jsstring)
         \<and> (case hi of None \<Rightarrow> True | Some h \<Rightarrow> length ([]::jsstring) \<le> h)
         \<and> list_all cls [] \<and> run p (b \<and> ([]::jsstring) = []) (c # t)"
        by (auto split: option.splits)
      then show ?thesis by blast
    qed
  next
    assume "\<exists>u v. c # t = u @ v \<and> lo \<le> length u \<and> (case hi of None \<Rightarrow> True | Some h \<Rightarrow> length u \<le> h)
        \<and> list_all cls u \<and> run p (b \<and> u = []) v"
    then obtain u v where uv: "c # t = u @ v" "lo \<le> length u"
      "(case hi of None \<Rightarrow> True | Some h \<Rightarrow> length u \<le> h)" "list_all cls u" "run p (b \<and> u = []) v"
      by blast
    show "run (Rep cls lo hi # p) b (c # t)"
    proof (cases u)
      case Nil
      with uv show ?thesis by simp
    next
      case (Cons d u')
      with uv have t: "t = u' @ v" and d: "d = c" by simp_all
      have "\<exists>u v. t = u @ v \<and> lo - 1 \<le> length u
          \<and> (case dec hi of None \<Rightarrow> True | Some h \<Rightarrow> length u \<le> h)
          \<and> list_all cls u \<and> run p (False \<and> u = []) v"
        using uv t Cons by (intro exI[of _ u'] exI[of _ v]) (auto split: option.splits)
      then have "run (Rep cls (lo - 1) (dec hi) # p) False t"
        by (rule Cons.IH [THEN iffD2])
      moreover have "hi \<noteq> Some 0" using uv(3) Cons by auto
      moreover have "cls c" using uv(4) Cons d by simp
      ultimately show ?thesis using step by blast
    qed
  qed
qed

lemma run_Atom_iff:
  "run (Atom cls # p) b s \<longleftrightarrow> (\<exists>c t. s = c # t \<and> cls c \<and> run p False t)"
  by (cases s) auto

lemma search_Bol_False: "search (Bol # p) False s = False"
  by (induction s) auto

lemma test_Bol: "test (Bol # p) s = run p True s"
  by (cases s) (auto simp: test_def search_Bol_False)

lemma test_usernameRegex:
  "test usernameRegex s \<longleftrightarrow> 3 \<le> length s \<and> length s \<le> 20 \<and> list_all cls_word s"
  unfolding usernameRegex_def test_Bol run_Rep_iff
  by auto

lemma nonempty_length: "1 \<le> length u \<longleftrightarrow> u \<noteq> []"
  by (cases u) auto

lemma test_emailRegex: "test emailRegex s \<longleftrightarrow> email_pattern s"
proof -
  have "test emailRegex s \<longleftrightarrow>
    (\<exists>u v. s = u @ v \<and> u \<noteq> [] \<and> list_all cls_not_space_at u \<and>
       (\<exists>t. v = 0x40 # t \<and>
          (\<exists>u' v'. t = u' @ v' \<and> u' \<noteq> [] \<and> list_all cls_not_space_at u' \<and>
             (\<exists>t'. v' = 0x2E # t' \<and> t' \<noteq> [] \<and> list_all cls_not_space_at t'))))"
    unfolding emailRegex_def test_Bol run_Rep_iff run_Atom_iff
    by (simp add: nonempty_length [symmetric] cls_at_def cls_period_def)
  also have "\<dots> \<longleftrightarrow> email_pattern s"
  proof
    assume "\<exists>u v. s = u @ v \<and> u \<noteq> [] \<and> list_all cls_not_space_at u \<and>
       (\<exists>t. v = 0x40 # t \<and>
          (\<exists>u' v'. t = u' @ v' \<and> u' \<noteq> [] \<and> list_all cls_not_space_at u' \<and>
             (\<exists>t'. v' = 0x2E # t' \<and> t' \<noteq> [] \<and> list_all cls_not_space_at t')))"
    then obtain u v t u' v' t' where
      "s = u @ v" "u \<noteq> []" "list_all cls_not_space_at u" "v = 0x40 # t"
      "t = u' @ v'" "u' \<noteq> []" "list_all cls_not_space_at u'"
      "v' = 0x2E # t'" "t' \<noteq> []" "list_all cls_not_space_at t'"
      by blast
    then have "s = u @ [0x40] @ u' @ [0x2E] @ t' \<and> u \<noteq> [] \<and> u' \<noteq> [] \<and> t' \<noteq> []
        \<and> list_all cls_not_space_at u \<and> list_all cls_not_space_at u'
        \<and> list_all cls_not_space_at t'"
      by simp
    then show "email_pattern s" unfolding email_pattern_def by blast
  next
    assume "email_pattern s"
    then obtain a b c where abc: "s = a @ [0x40] @ b @ [0x2E] @ c" "a \<noteq> []" "b \<noteq> []" "c \<noteq> []"
      "list_all cls_not_space_at a" "list_all cls_not_space_at b" "list_all cls_not_space_at c"
      unfolding email_pattern_def by blast
    have inner: "\<exists>u' v'. b @ 0x2E # c = u' @ v' \<and> u' \<noteq> [] \<and> list_all cls_not_space_at u' \<and>
             (\<exists>t'. v' = 0x2E # t' \<and> t' \<noteq> [] \<and> list_all cls_not_space_at t')"
      using abc by (intro exI [of _ b] exI [of _ "0x2E # c"]) simp
    have "s = a @ (0x40 # b @ 0x2E # c)" using abc by simp
    with abc inner show "\<exists>u v. s = u @ v \<and> u \<noteq> [] \<and> list_all cls_not_space_at u \<and>
       (\<exists>t. v = 0x40 # t \<and>
          (\<exists>u' v'. t = u' @ v' \<and> u' \<noteq> [] \<and> list_all cls_not_space_at u' \<and>
             (\<exists>t'. v' = 0x2E # t' \<and> t' \<noteq> [] \<and> list_all cls_not_space_at t')))"
      by (intro exI [of _ a] exI [of _ "0x40 # b @ 0x2E # c"]) simp
  qed
  finally show ?thesis .
qed

lemma search_iff: "search p b s \<longleftrightarrow> (\<exists>u v. s = u @ v \<and> run p (b \<and> u = []) v)"
proof (induction s arbitrary: b)
  case Nil
  then show ?case by simp
next
  case (Cons c t)
  show ?case
  proof
    assume "search p b (c # t)"
    then consider "run p b (c # t)" | "search p False t" by auto
    then show "\<exists>u v. c # t = u @ v \<and> run p (b \<and> u = []) v"
    proof cases
      case 1
      then have "c # t = [] @ (c # t) \<and> run p (b \<and> ([]::jsstring) = []) (c # t)" by simp
      then show ?thesis by blast
    next
      case 2
      then obtain u v where "t = u @ v" "run p False v" using Cons.IH by auto
      then have "c # t = (c # u) @ v \<and> run p (b \<and> c # u = []) v" by simp
      then show ?thesis by blast
    qed
  next
    assume "\<exists>u v. c # t = u @ v \<and> run p (b \<and> u = []) v"
    then obtain u v where uv: "c # t = u @ v" "run p (b \<and> u = []) v" by blast
    show "search p b (c # t)"
    proof (cases u)
      case Nil
      with uv have "run p b (c # t)" by simp
      then show ?thesis by simp
    next
      case (Cons d u')
      with uv have "t = u' @ v" "run p False v" by simp_all
      then have "search p False t" using Cons.IH by auto
      then show ?thesis by simp
    qed
  qed
qed

lemma list_ex_append_Cons: "list_ex P s \<longleftrightarrow> (\<exists>x c t. s = x @ c # t \<and> P c)"
proof
  assume "list_ex P s"
  then obtain c where "c \<in> set s" "P c" unfolding list_ex_iff by blast
  then obtain x t where "s = x @ c # t" by (meson split_list)
  with \<open>P c\<close> show "\<exists>x c t. s = x @ c # t \<and> P c" by blast
next
  assume "\<exists>x c t. s = x @ c # t \<and> P c"
  then show "list_ex P s" unfolding list_ex_iff by auto
qed

lemma test_passwordRegex:
  "test passwordRegex s \<longleftrightarrow>
     (\<exists>u v. s = u @ v
        \<and> (\<exists>x c t. v = x @ c # t \<and> list_all cls_dot x \<and> cls_letter c)
        \<and> (\<exists>x c t. v = x @ c # t \<and> list_all cls_dot x \<and> cls_digit c))"
  unfolding passwordRegex_def test_def search_iff run.simps(6) run_Rep_iff run_Atom_iff
  by simp blast

lemma test_passwordRegex_sound:
  assumes "test passwordRegex s"
  shows "list_ex cls_letter s \<and> list_ex cls_digit s"
proof -
  from assms obtain u v x c t x' c' t' where
    "s = u @ v" "v = x @ c # t" "cls_letter c" "v = x' @ c' # t'" "cls_digit c'"
    unfolding test_passwordRegex by blast
  have "c \<in> set v" using \<open>v = x @ c # t\<close> by simp
  moreover have "c' \<in> set v" using \<open>v = x' @ c' # t'\<close> by simp
  ultimately have "c \<in> set s" "c' \<in> set s" using \<open>s = u @ v\<close> by simp_all
  with \<open>cls_letter c\<close> \<open>cls_digit c'\<close> show ?thesis unfolding list_ex_iff by blast
qed

lemma list_ex_first:
  "list_ex P s \<Longrightarrow> list_all Q s \<Longrightarrow> \<exists>x c t. s = x @ c # t \<and> list_all Q x \<and> P c"
proof -
  assume "list_ex P s" and q: "list_all Q s"
  then obtain x c t where xs: "s = x @ c # t" "P c" unfolding list_ex_append_Cons by blast
  with q have "list_all Q x" by simp
  with xs show ?thesis by blast
qed

lemma test_passwordRegex_single_line:
  assumes "list_all cls_dot s" "list_ex cls_letter s" "list_ex cls_digit s"
  shows "test passwordRegex s"
proof -
  have "s = [] @ s" by simp
  moreover have "\<exists>x c t. s = x @ c # t \<and> list_all cls_dot x \<and> cls_letter c"
    using assms by (intro list_ex_first)
  moreover have "\<exists>x c t. s = x @ c # t \<and> list_all cls_dot x \<and> cls_digit c"
    using assms by (intro list_ex_first)
  ultimately show ?thesis unfolding test_passwordRegex by blast
qed

subsection \<open>Error elements and frames\<close>

lemma modify_fields [simp]:
  "notifications (modify r f s) = notifications s"
  "localStorage (modify r f s) = localStorage s"
  "href (modify r f s) = href s"
  "timers (modify r f s) = timers s"
  by (simp_all add: modify_def split: option.splits)

lemma document_modify [simp]:
  "document (modify r f s) r' = (if r' = r then map_option f (document s r) else document s r')"
  by (simp add: modify_def split: option.splits)

lemma modify_id: "(\<And>e. document s r = Some e \<Longrightarrow> f e = e) \<Longrightarrow> modify r f s = s"
  by (auto simp: modify_def map_upd_triv split: option.splits)

lemma modify_modify: "modify r f (modify r g s) = modify r (f \<circ> g) s"
  by (simp add: modify_def split: option.splits)

lemma fst_validateLoginForm: "fst (validateLoginForm u p s) = (u \<noteq> [] \<and> p \<noteq> [])"
  by (simp add: validateLoginForm_def)

lemma showFieldError_fields [simp]:
  "notifications (showFieldError i m s) = notifications s"
  "localStorage (showFieldError i m s) = localStorage s"
  "href (showFieldError i m s) = href s"
  "timers (showFieldError i m s) = timers s"
  by (simp_all add: showFieldError_def)

lemma clearFieldError_fields [simp]:
  "notifications (clearFieldError i s) = notifications s"
  "localStorage (clearFieldError i s) = localStorage s"
  "href (clearFieldError i s) = href s"
  "timers (clearFieldError i s) = timers s"
  by (simp_all add: clearFieldError_def)

lemma document_showFieldError [simp]:
  "document (showFieldError i m s) r =
     (if r = ById i then
        map_option (\<lambda>e. e\<lparr>textContent := m, classList := insert ''show'' (classList e)\<rparr>)
          (document s r)
      else document s r)"
  by (simp add: showFieldError_def)

lemma document_clearFieldError [simp]:
  "document (clearFieldError i s) r =
     (if r = ById i then
        map_option (\<lambda>e. e\<lparr>textContent := [], classList := classList e - {''show''}\<rparr>)
          (document s r)
      else document s r)"
  by (simp add: clearFieldError_def)

lemma touches_only_refl: "touches_only R s s"
  by (simp add: touches_only_def)

lemma touches_only_trans:
  "touches_only R s s' \<Longrightarrow> touches_only R' s' s'' \<Longrightarrow> touches_only (R \<union> R') s s''"
  by (simp add: touches_only_def)

lemma touches_only_mono: "touches_only R s s' \<Longrightarrow> R \<subseteq> R' \<Longrightarrow> touches_only R' s s'"
  by (auto simp: touches_only_def)

lemma touches_showFieldError: "touches_only {ById i} s (showFieldError i m s)"
  by (simp add: touches_only_def)

lemma touches_clearFieldError: "touches_only {ById i} s (clearFieldError i s)"
  by (simp add: touches_only_def)

lemma touches_validateUsername:
  "touches_only {ById i} s (snd (validateUsername (Str u) (Some i) s))"
  unfolding validateUsername_def
  by (simp add: touches_only_refl touches_showFieldError touches_clearFieldError)

lemma touches_validateEmail:
  "touches_only {ById i} s (snd (validateEmail (Str u) (Some i) s))"
  unfolding validateEmail_def
  by (simp add: touches_only_refl touches_showFieldError touches_clearFieldError)

lemma touches_validatePassword:
  "touches_only {ById i} s (snd (validatePassword (Str u) (Some i) s))"
  unfolding validatePassword_def
  by (simp add: touches_only_refl touches_showFieldError touches_clearFieldError)

lemma fst_validateUsername [simp]: "fst (validateUsername (Str u) e s) = test usernameRegex u"
  by (auto simp: validateUsername_def test_usernameRegex)

lemma fst_validateEmail [simp]: "fst (validateEmail (Str u) e s) = test emailRegex u"
  by (auto simp: validateEmail_def test_emailRegex email_pattern_def)

lemma fst_validatePassword [simp]:
  "fst (validatePassword (Str u) e s) = (8 \<le> length u \<and> test passwordRegex u)"
  by (auto simp: validatePassword_def)

lemma snd_validateRegistrationForm:
  "snd (validateRegistrationForm fd s) =
     terms_step fd (confirm_step fd
       (snd (validatePassword (Str (password fd)) (Some ''registerPasswordError'')
         (snd (validateEmail (Str (email fd)) (Some ''registerEmailError'')
           (snd (validateUsername (Str (username fd)) (Some ''registerUsernameError'') s)))))))"
  by (simp add: validateRegistrationForm_def split_beta Let_def confirm_step_def terms_step_def)

lemma fst_validateRegistrationForm:
  "fst (validateRegistrationForm fd s) =
     (test usernameRegex (username fd) \<and> test emailRegex (email fd)
      \<and> 8 \<le> length (password fd) \<and> test passwordRegex (password fd)
      \<and> password fd = confirmPassword fd \<and> acceptTerms fd)"
  by (simp add: validateRegistrationForm_def split_beta Let_def)

lemma touches_confirm_step: "touches_only {ById ''confirmPasswordError''} s (confirm_step fd s)"
  by (simp add: confirm_step_def touches_showFieldError touches_clearFieldError)

lemma touches_terms_step: "touches_only {ById ''termsError''} s (terms_step fd s)"
  by (simp add: terms_step_def touches_showFieldError touches_clearFieldError)

lemma touches_validateRegistrationForm:
  "touches_only register_errors s (snd (validateRegistrationForm fd s))"
proof -
  let ?s1 = "snd (validateUsername (Str (username fd)) (Some ''registerUsernameError'') s)"
  let ?s2 = "snd (validateEmail (Str (email fd)) (Some ''registerEmailError'') ?s1)"
  let ?s3 = "snd (validatePassword (Str (password fd)) (Some ''registerPasswordError'') ?s2)"
  have "touches_only ({ById ''registerUsernameError''} \<union> {ById ''registerEmailError''}
          \<union> {ById ''registerPasswordError''} \<union> {ById ''confirmPasswordError''}
          \<union> {ById ''termsError''}) s (terms_step fd (confirm_step fd ?s3))"
    by (rule touches_only_trans [OF touches_only_trans [OF touches_only_trans
          [OF touches_only_trans [OF touches_validateUsername touches_validateEmail]
            touches_validatePassword] touches_confirm_step] touches_terms_step])
  then show ?thesis
    unfolding snd_validateRegistrationForm register_errors_def
    by (rule touches_only_mono) auto
qed

lemma touches_validateLoginForm:
  "touches_only {ById ''loginUsernameError'', ById ''loginPasswordError''} s
     (snd (validateLoginForm u p s))"
proof -
  let ?s1 = "(if u = [] then showFieldError ''loginUsernameError'' (js ''Username is required'') s
              else clearFieldError ''loginUsernameError'' s)"
  let ?s2 = "(if p = [] then showFieldError ''loginPasswordError'' (js ''Password is required'') ?s1
              else clearFieldError ''loginPasswordError'' ?s1)"
  have eq: "snd (validateLoginForm u p s) = ?s2"
    by (simp add: validateLoginForm_def)
  have 1: "touches_only {ById ''loginUsernameError''} s ?s1"
    by (simp add: touches_showFieldError touches_clearFieldError)
  have 2: "touches_only {ById ''loginPasswordError''} ?s1 ?s2"
    by (simp add: touches_showFieldError touches_clearFieldError)
  have "touches_only ({ById ''loginUsernameError''} \<union> {ById ''loginPasswordError''}) s ?s2"
    using 1 2 by (rule touches_only_trans)
  then show ?thesis unfolding eq by (rule touches_only_mono) auto
qed

subsection \<open>Handlers\<close>

lemma touches_only_present: "touches_only R s s' \<Longrightarrow> present rs s' = present rs s"
  by (simp add: present_def touches_only_def)

lemma setLoadingState_fields [simp]:
  "notifications (snd (setLoadingState b l s)) = notifications s"
  "localStorage (snd (setLoadingState b l s)) = localStorage s"
  "href (snd (setLoadingState b l s)) = href s"
  "timers (snd (setLoadingState b l s)) = timers s"
  by (simp_all add: setLoadingState_def Let_def split: option.splits)

lemma setLoadingState_dom [simp]:
  "(document (snd (setLoadingState b l s)) r = None) = (document s r = None)"
  by (simp add: setLoadingState_def Let_def split: option.splits)

lemma setLoadingState_present [simp]:
  "present rs (snd (setLoadingState b l s)) = present rs s"
  by (simp add: present_def)

lemma setLoadingState_Normal:
  "present (button_parts b) s \<Longrightarrow> fst (setLoadingState b l s) = Normal"
  by (auto simp: present_def button_parts_def setLoadingState_def Let_def split: option.splits)

lemma showNotification_localStorage [simp]:
  "localStorage (snd (showNotification m t s)) = localStorage s"
  by (simp add: showNotification_def Let_def split: option.splits)

lemma showNotification_Normal:
  "document s (ById ''notificationContainer'') \<noteq> None \<Longrightarrow>
   showNotification m t s =
     (Normal, s\<lparr>notifications := notifications s
                   @ [\<lparr>className = ''notification notification-'' @ t, message = m\<rparr>],
                 timers := timers s
                   @ [(5000, RemoveNotification
                        \<lparr>className = ''notification notification-'' @ t, message = m\<rparr>)]\<rparr>)"
  by (auto simp: showNotification_def Let_def)

lemma try_catch_finally_localStorage:
  assumes "\<And>s. localStorage (snd (body s)) = F (localStorage s)"
    and "\<And>s. localStorage (snd (handler s)) = localStorage s"
    and "\<And>s. localStorage (snd (fin s)) = localStorage s"
  shows "localStorage (snd (try_catch_finally body handler fin s)) = F (localStorage s)"
proof -
  obtain c1 s1 where b: "body s = (c1, s1)" by (cases "body s")
  obtain c2 s2 where h: "(if c1 = Throw then handler s1 else (Normal, s1)) = (c2, s2)"
    by (cases "if c1 = Throw then handler s1 else (Normal, s1)")
  have 1: "localStorage s1 = F (localStorage s)" using assms(1) [of s] b by simp
  have 2: "localStorage s2 = localStorage s1"
    using h assms(2) [of s1] by (auto split: if_splits)
  have "snd (try_catch_finally body handler fin s) = snd (fin s2)"
    by (simp add: try_catch_finally_def b h split_beta)
  then show ?thesis using 1 2 assms(3) [of s2] by simp
qed

lemma login_then_localStorage:
  "localStorage (snd (login_then u r s)) =
     (if r then (localStorage s)(''rememberedUsername'' \<mapsto> u)
      else (localStorage s)(''rememberedUsername'' := None))"
  by (simp add: login_then_def showNotification_def Let_def split: option.splits)

lemma resume_login_rejected: "localStorage (snd (resume (LoginCont u r) True s)) = localStorage s"
  by (simp add: login_catch_def login_finally_def
      try_catch_finally_localStorage [where F = "\<lambda>m. m"])

lemma resume_login_resolved:
  "localStorage (snd (resume (LoginCont u r) False s)) =
     (if r then (localStorage s)(''rememberedUsername'' \<mapsto> u)
      else (localStorage s)(''rememberedUsername'' := None))"
  by (simp add: login_catch_def login_finally_def login_then_localStorage
      try_catch_finally_localStorage
        [where F = "\<lambda>m. if r then m(''rememberedUsername'' \<mapsto> u)
                         else m(''rememberedUsername'' := None)"])

lemma touches_only_localStorage: "touches_only R s s' \<Longrightarrow> localStorage s' = localStorage s"
  by (simp add: touches_only_def)

lemma handleLogin_localStorage: "localStorage (snd (handleLogin s)) = localStorage s"
proof (cases "readLoginForm s")
  case None
  then show ?thesis by (simp add: handleLogin_def)
next
  case (Some f)
  obtain u p r where f: "f = (u, p, r)" by (cases f)
  let ?s1 = "snd (validateLoginForm u p s)"
  have s1: "localStorage ?s1 = localStorage s"
    using touches_validateLoginForm by (rule touches_only_localStorage)
  show ?thesis
  proof (cases "fst (validateLoginForm u p s)")
    case False
    then show ?thesis using Some f s1 by (simp add: handleLogin_def split_beta)
  next
    case True
    obtain c s2 where l: "setLoadingState ''loginBtn'' True ?s1 = (c, s2)"
      by (cases "setLoadingState ''loginBtn'' True ?s1")
    have s2: "localStorage s2 = localStorage s"
      using setLoadingState_fields(2) [of "''loginBtn''" True ?s1] l s1 by simp
    show ?thesis
    proof (cases c)
      case Normal
      then show ?thesis
        using Some f True l s2 by (simp add: handleLogin_def split_beta simulateAPICall_def)
    next
      case Throw
      have "localStorage (snd (try_catch_finally (\<lambda>s. (Throw, s)) login_catch login_finally s2))
              = localStorage s2"
        by (simp add: login_catch_def login_finally_def
            try_catch_finally_localStorage [where F = "\<lambda>m. m"])
      then show ?thesis
        using Some f True l s2 Throw by (simp add: handleLogin_def split_beta)
    qed
  qed
qed

lemma handleLogin_schedules:
  assumes "readLoginForm s = Some (u, p, r)" "u \<noteq> []" "p \<noteq> []"
    and "present (button_parts ''loginBtn'') s"
  shows "fst (handleLogin s) = Normal
    \<and> timers (snd (handleLogin s)) = timers s @ [(1500, SimulatedCall (LoginCont u r))]"
proof -
  let ?s1 = "snd (validateLoginForm u p s)"
  have "present (button_parts ''loginBtn'') ?s1"
    using touches_only_present [OF touches_validateLoginForm] assms(4) by simp
  then have n: "fst (setLoadingState ''loginBtn'' True ?s1) = Normal"
    by (rule setLoadingState_Normal)
  have t: "timers ?s1 = timers s"
    using touches_validateLoginForm [of s u p] by (simp add: touches_only_def)
  obtain c s2 where l: "setLoadingState ''loginBtn'' True ?s1 = (c, s2)"
    by (cases "setLoadingState ''loginBtn'' True ?s1")
  with n have c: "c = Normal" by simp
  have "timers s2 = timers s"
    using setLoadingState_fields(4) [of "''loginBtn''" True ?s1] l t by simp
  then show ?thesis
    using assms(1-3) l c
    by (simp add: handleLogin_def split_beta fst_validateLoginForm simulateAPICall_def)
qed

lemma touches_only_unsubmitted:
  assumes "touches_only R s s'" "set (button_parts b) \<inter> R = {}"
  shows "unsubmitted b s s'"
  using assms by (auto simp: touches_only_def unsubmitted_def)

lemma handleRegister_invalid:
  assumes "readRegistrationForm s = Some fd" "\<not> fst (validateRegistrationForm fd s)"
  shows "handleRegister s = (Normal, snd (validateRegistrationForm fd s))"
  using assms by (simp add: handleRegister_def split_beta)

lemma handleLogin_invalid:
  assumes "readLoginForm s = Some (u, p, r)" "\<not> fst (validateLoginForm u p s)"
  shows "handleLogin s = (Normal, snd (validateLoginForm u p s))"
  using assms by (simp add: handleLogin_def split_beta)

lemma handleForgotPassword_invalid:
  assumes "document s (ById ''forgotEmail'') = Some ee"
    "\<not> fst (validateEmail (Str (trim (val ee))) (Some ''forgotEmailError'') s)"
  shows "handleForgotPassword s =
    (Normal, snd (validateEmail (Str (trim (val ee))) (Some ''forgotEmailError'') s))"
  using assms by (simp add: handleForgotPassword_def split_beta)

lemma handleRegister_valid:
  assumes "readRegistrationForm s = Some fd" "fst (validateRegistrationForm fd s)"
    and "present (button_parts ''registerBtn'') s"
  shows "handleRegister s =
    (Normal, simulateAPICall 2000 (RegisterCont (username fd))
       (snd (setLoadingState ''registerBtn'' True (snd (validateRegistrationForm fd s)))))"
proof -
  let ?s1 = "snd (validateRegistrationForm fd s)"
  have "present (button_parts ''registerBtn'') ?s1"
    using touches_only_present [OF touches_validateRegistrationForm] assms(3) by simp
  then have n: "fst (setLoadingState ''registerBtn'' True ?s1) = Normal"
    by (rule setLoadingState_Normal)
  obtain c s2 where l: "setLoadingState ''registerBtn'' True ?s1 = (c, s2)"
    by (cases "setLoadingState ''registerBtn'' True ?s1")
  with n have c: "c = Normal" by simp
  show ?thesis
    using assms(1,2) l c by (simp add: handleRegister_def split_beta)
qed

lemma resume_register_resolved:
  assumes "present (button_parts ''registerBtn'') s"
    and "document s (ById ''notificationContainer'') \<noteq> None"
  shows "resume (RegisterCont u) False s =
    (Normal, snd (setLoadingState ''registerBtn'' False
       (s\<lparr>notifications := notifications s @ [success_notification],
          timers := timers s @ [(5000, RemoveNotification success_notification),
                                (1500, GoLoginPrefill u)]\<rparr>)))"
proof -
  let ?s1 = "s\<lparr>notifications := notifications s @ [success_notification],
          timers := timers s @ [(5000, RemoveNotification success_notification),
                                (1500, GoLoginPrefill u)]\<rparr>"
  have b: "register_then u s = (Normal, ?s1)"
    using assms(2)
    by (simp add: register_then_def showNotification_Normal success_notification_def)
  have "present (button_parts ''registerBtn'') ?s1"
    using assms(1) by (simp add: present_def)
  then have n: "fst (register_finally ?s1) = Normal"
    unfolding register_finally_def by (rule setLoadingState_Normal)
  show ?thesis
    using b n by (simp add: try_catch_finally_def split_beta register_finally_def)
qed

lemma registration_success_flow:
  assumes "readRegistrationForm s = Some fd"
    and "fst (validateUsername (Str (username fd)) None s)"
    and "fst (validateEmail (Str (email fd)) None s)"
    and "fst (validatePassword (Str (password fd)) None s)"
    and "confirmPassword fd = password fd"
    and "acceptTerms fd"
    and "present (button_parts ''registerBtn'') s"
    and "document s (ById ''notificationContainer'') \<noteq> None"
  shows "\<exists>s1 s2.
      handleRegister s = (Normal, s1)
      \<and> timers s1 = timers s @ [(2000, SimulatedCall (RegisterCont (username fd)))]
      \<and> notifications s1 = notifications s
      \<and> fire (length (timers s)) False s1 = (Normal, s2)
      \<and> notifications s2 = notifications s @ [success_notification]
      \<and> timers s2 = timers s @ [(5000, RemoveNotification success_notification),
                                  (1500, GoLoginPrefill (username fd))]
      \<and> href s2 = href s
      \<and> (\<forall>r. (document s2 r = None) = (document s r = None))"
proof -
  let ?v = "snd (validateRegistrationForm fd s)"
  let ?l = "snd (setLoadingState ''registerBtn'' True ?v)"
  let ?s1 = "simulateAPICall 2000 (RegisterCont (username fd)) ?l"
  have valid: "fst (validateRegistrationForm fd s)"
    using assms(2-6) by (simp add: fst_validateRegistrationForm)
  have t: "touches_only register_errors s ?v" by (rule touches_validateRegistrationForm)
  have h1: "handleRegister s = (Normal, ?s1)"
    using assms(1) valid assms(7) by (rule handleRegister_valid)
  have tl: "timers ?l = timers s" "notifications ?l = notifications s" "href ?l = href s"
    using t by (simp_all add: touches_only_def)
  have dl: "(document ?l r = None) = (document s r = None)" for r
    using t by (simp add: touches_only_def)
  have pl: "present (button_parts ''registerBtn'') ?l"
    using touches_only_present [OF t] assms(7) by simp
  have t1: "timers ?s1 = timers s @ [(2000, SimulatedCall (RegisterCont (username fd)))]"
    and n1: "notifications ?s1 = notifications s"
    using tl by (simp_all add: simulateAPICall_def)
  have popped: "?s1\<lparr>timers := take (length (timers s)) (timers ?s1)
                  @ drop (Suc (length (timers s))) (timers ?s1)\<rparr> = ?l"
    using tl(1) by (simp add: simulateAPICall_def)
  let ?n = "?l\<lparr>notifications := notifications ?l @ [success_notification],
          timers := timers ?l @ [(5000, RemoveNotification success_notification),
                                (1500, GoLoginPrefill (username fd))]\<rparr>"
  let ?s2 = "snd (setLoadingState ''registerBtn'' False ?n)"
  have "document ?l (ById ''notificationContainer'') \<noteq> None"
    using assms(8) dl by simp
  with pl have r: "resume (RegisterCont (username fd)) False ?l = (Normal, ?s2)"
    by (rule resume_register_resolved)
  have h2: "fire (length (timers s)) False ?s1 = (Normal, ?s2)"
    using t1 popped r by (simp add: fire_def)
  have n2: "notifications ?s2 = notifications s @ [success_notification]"
    and t2: "timers ?s2 = timers s @ [(5000, RemoveNotification success_notification),
                                  (1500, GoLoginPrefill (username fd))]"
    and hr2: "href ?s2 = href s"
    using tl by simp_all
  have d2: "\<forall>r. (document ?s2 r = None) = (document s r = None)"
    using dl by simp
  from h1 t1 n1 h2 n2 t2 hr2 d2 show ?thesis by blast
qed

text \<open>
  The pre-fill is written to the document the script runs in. Without a login
  username field there, the timer sets the location and then throws; with one, the
  value lands in the document that the navigation is about to discard. Either way the
  page that is loaded is the one that would have been loaded without the pre-fill, and
  when no username is remembered it shows what its own HTML holds.
\<close>

lemma prefill_without_login_field:
  "document s (ById ''loginUsername'') = None \<Longrightarrow>
   run_task (GoLoginPrefill u) rejected s = (Throw, goToLogin s)"
  by (simp add: goToLogin_def)

lemma prefill_with_login_field:
  "document s (ById ''loginUsername'') \<noteq> None \<Longrightarrow>
   run_task (GoLoginPrefill u) rejected s =
     (Normal, modify (ById ''loginUsername'') (\<lambda>e. e\<lparr>val := u\<rparr>) (goToLogin s))"
  by (auto simp: goToLogin_def)

lemma prefill_lost_on_load:
  "load site (snd (run_task (GoLoginPrefill u) rejected s)) = load site (goToLogin s)"
proof (cases "document s (ById ''loginUsername'')")
  case None
  then have "run_task (GoLoginPrefill u) rejected s = (Throw, goToLogin s)"
    by (rule prefill_without_login_field)
  then show ?thesis by (simp del: run_task.simps)
next
  case (Some e)
  then have "document s (ById ''loginUsername'') \<noteq> None" by simp
  then have "run_task (GoLoginPrefill u) rejected s =
     (Normal, modify (ById ''loginUsername'') (\<lambda>e. e\<lparr>val := u\<rparr>) (goToLogin s))"
    by (rule prefill_with_login_field)
  then show ?thesis by (simp del: run_task.simps add: load_def)
qed

lemma load_without_remembered_user:
  "localStorage s ''rememberedUsername'' = None \<Longrightarrow>
   load site s =
     (Normal, \<lparr>document = site (href s), notifications = [], localStorage = localStorage s,
               href = href s, timers = []\<rparr>)"
  by (simp add: load_def init_def loadRememberedUser_def)

section \<open>The claims\<close>

text \<open>
  C1. For every string \<open>s\<close>, \<open>validateUsername\<close> called with \<open>s\<close> and no error
  element returns true if \<open>s\<close> is 3 to 20 characters from \<open>[a-zA-Z0-9_]\<close> and false
  for every other string, and leaves the page as it was; \<open>john123\<close> gives true, \<open>ab\<close>
  and \<open>user@name\<close> give false.
\<close>

theorem validateUsername_pattern:
  "validateUsername (Str s) None st = (username_pattern s, st)
   \<and> validateUsername (Str (js ''john123'')) None st = (True, st)
   \<and> validateUsername (Str (js ''ab'')) None st = (False, st)
   \<and> validateUsername (Str (js ''user@name'')) None st = (False, st)"
proof (intro conjI)
  show "validateUsername (Str s) None st = (username_pattern s, st)"
    by (auto simp: validateUsername_def test_usernameRegex username_pattern_def)
  show "validateUsername (Str (js ''john123'')) None st = (True, st)"
    by (simp add: validateUsername_def test_usernameRegex js_def cls_word_def)
  show "validateUsername (Str (js ''ab'')) None st = (False, st)"
    by (simp add: validateUsername_def test_usernameRegex js_def cls_word_def)
  show "validateUsername (Str (js ''user@name'')) None st = (False, st)"
    by (simp add: validateUsername_def test_usernameRegex js_def cls_word_def)
qed

text \<open>
  C2. The claim reads: \<open>validatePassword\<close> called with \<open>s\<close> and no error element
  returns true if and only if \<open>s\<close> has at least 8 characters, a letter and a digit.
  The pattern of the source looks for the letter and the digit with \<open>.*\<close>, which does
  not cross a line terminator: a password whose letters and digits lie on different
  lines is refused although it satisfies the rule. Here the password is \<open>abcdefgh\<close>,
  a line feed (or U+2028), and \<open>1\<close>.
\<close>

theorem validatePassword_line_terminator:
  "password_rule (js ''abcdefgh'' @ [0x0A] @ js ''1'')
   \<and> validatePassword (Str (js ''abcdefgh'' @ [0x0A] @ js ''1'')) None st = (False, st)
   \<and> password_rule (js ''abcdefgh'' @ [0x2028] @ js ''1'')
   \<and> validatePassword (Str (js ''abcdefgh'' @ [0x2028] @ js ''1'')) None st = (False, st)"
proof (intro conjI)
  show "password_rule (js ''abcdefgh'' @ [0x0A] @ js ''1'')"
    by (simp add: password_rule_def js_def cls_letter_def cls_digit_def)
  show "password_rule (js ''abcdefgh'' @ [0x2028] @ js ''1'')"
    by (simp add: password_rule_def js_def cls_letter_def cls_digit_def)
  show "validatePassword (Str (js ''abcdefgh'' @ [0x0A] @ js ''1'')) None st = (False, st)"
    by (simp add: validatePassword_def passwordRegex_def test_def js_def cls_letter_def cls_digit_def cls_dot_def isLineTerminator_def)
  show "validatePassword (Str (js ''abcdefgh'' @ [0x2028] @ js ''1'')) None st = (False, st)"
    by (simp add: validatePassword_def passwordRegex_def test_def js_def cls_letter_def cls_digit_def cls_dot_def isLineTerminator_def)
qed

text \<open>
  What does hold of the password validator: it never accepts a string that breaks the
  rule, it agrees with the rule on every string without a line terminator, and it
  decides the four examples of the specification as stated there.
\<close>

lemma validatePassword_sound:
  "fst (validatePassword (Str s) None st) \<Longrightarrow> password_rule s"
  by (simp add: password_rule_def test_passwordRegex_sound)

lemma validatePassword_single_line:
  "list_all cls_dot s \<Longrightarrow>
   validatePassword (Str s) None st = (password_rule s, st)"
  by (auto simp: validatePassword_def password_rule_def
      dest: test_passwordRegex_sound intro: test_passwordRegex_single_line)

lemma validatePassword_examples:
  "validatePassword (Str (js ''password123'')) None st = (True, st)"
  "validatePassword (Str (js ''short'')) None st = (False, st)"
  "validatePassword (Str (js ''onlyletters'')) None st = (False, st)"
  "validatePassword (Str (js ''12345678'')) None st = (False, st)"
  by (simp_all add: validatePassword_def passwordRegex_def test_def js_def cls_letter_def cls_digit_def cls_dot_def isLineTerminator_def)

text \<open>
  C3. For every string \<open>s\<close>, \<open>validateEmail\<close> called with \<open>s\<close> and no error element
  returns true if \<open>s\<close> matches the email pattern and false otherwise, and leaves the
  page as it was; \<open>user@example.com\<close> gives true, \<open>invalid.email\<close> and
  \<open>@domain.com\<close> give false.
\<close>

theorem validateEmail_pattern:
  "validateEmail (Str s) None st = (email_pattern s, st)
   \<and> validateEmail (Str (js ''user@example.com'')) None st = (True, st)
   \<and> validateEmail (Str (js ''invalid.email'')) None st = (False, st)
   \<and> validateEmail (Str (js ''@domain.com'')) None st = (False, st)"
proof (intro conjI)
  show "validateEmail (Str s) None st = (email_pattern s, st)"
    by (auto simp: validateEmail_def test_emailRegex email_pattern_def)
  show "validateEmail (Str (js ''user@example.com'')) None st = (True, st)"
    by (simp add: validateEmail_def emailRegex_def test_def js_def cls_not_space_at_def cls_at_def cls_period_def cls_space_def isWhiteSpace_def isLineTerminator_def)
  show "validateEmail (Str (js ''invalid.email'')) None st = (False, st)"
    by (simp add: validateEmail_def emailRegex_def test_def js_def cls_not_space_at_def cls_at_def cls_period_def cls_space_def isWhiteSpace_def isLineTerminator_def)
  show "validateEmail (Str (js ''@domain.com'')) None st = (False, st)"
    by (simp add: validateEmail_def emailRegex_def test_def js_def cls_not_space_at_def cls_at_def cls_period_def cls_space_def isWhiteSpace_def isLineTerminator_def)
qed



text \<open>
  C5. For each of the three forms: when the fields can be read and full-form validation
  fails, the handler returns normally and, apart from the error elements, leaves the
  page as it was: no timer is started (so no simulated call), no notification is
  appended, and the submit button and its parts are untouched (no loading state).
\<close>

theorem invalid_submission_stays_idle:
  "(readRegistrationForm s = Some fd \<and> \<not> fst (validateRegistrationForm fd s) \<longrightarrow>
      fst (handleRegister s) = Normal \<and> unsubmitted ''registerBtn'' s (snd (handleRegister s)))
   \<and> (readLoginForm s = Some (u, p, r) \<and> \<not> fst (validateLoginForm u p s) \<longrightarrow>
      fst (handleLogin s) = Normal \<and> unsubmitted ''loginBtn'' s (snd (handleLogin s)))
   \<and> (document s (ById ''forgotEmail'') = Some ee
        \<and> \<not> fst (validateEmail (Str (trim (val ee))) (Some ''forgotEmailError'') s) \<longrightarrow>
      fst (handleForgotPassword s) = Normal
      \<and> unsubmitted ''forgotBtn'' s (snd (handleForgotPassword s)))"
proof (intro conjI impI)
  assume a: "readRegistrationForm s = Some fd \<and> \<not> fst (validateRegistrationForm fd s)"
  then have h: "handleRegister s = (Normal, snd (validateRegistrationForm fd s))"
    by (simp add: handleRegister_invalid)
  then show "fst (handleRegister s) = Normal" by simp
  show "unsubmitted ''registerBtn'' s (snd (handleRegister s))"
    unfolding h snd_conv
    by (rule touches_only_unsubmitted [OF touches_validateRegistrationForm])
       (simp add: button_parts_def register_errors_def)
next
  assume a: "readLoginForm s = Some (u, p, r) \<and> \<not> fst (validateLoginForm u p s)"
  then have h: "handleLogin s = (Normal, snd (validateLoginForm u p s))"
    by (simp add: handleLogin_invalid)
  then show "fst (handleLogin s) = Normal" by simp
  show "unsubmitted ''loginBtn'' s (snd (handleLogin s))"
    unfolding h snd_conv
    by (rule touches_only_unsubmitted [OF touches_validateLoginForm])
       (simp add: button_parts_def)
next
  assume a: "document s (ById ''forgotEmail'') = Some ee
        \<and> \<not> fst (validateEmail (Str (trim (val ee))) (Some ''forgotEmailError'') s)"
  then have h: "handleForgotPassword s =
    (Normal, snd (validateEmail (Str (trim (val ee))) (Some ''forgotEmailError'') s))"
    by (simp add: handleForgotPassword_invalid)
  then show "fst (handleForgotPassword s) = Normal" by simp
  show "unsubmitted ''forgotBtn'' s (snd (handleForgotPassword s))"
    unfolding h snd_conv
    by (rule touches_only_unsubmitted [OF touches_validateEmail])
       (simp add: button_parts_def)
qed

theorem invalid_submission_stays_idle_witness:
  "unsubmitted ''registerBtn'' (registration_page [] [] [] [] False)
     (snd (handleRegister (registration_page [] [] [] [] False)))
   \<and> unsubmitted ''loginBtn'' (login_page [] [] False)
     (snd (handleLogin (login_page [] [] False)))
   \<and> unsubmitted ''forgotBtn'' (reset_page [])
     (snd (handleForgotPassword (reset_page [])))"
proof -
  let ?fd = "\<lparr>username = [], email = [], password = [], confirmPassword = [],
              acceptTerms = False\<rparr>"
  have r: "readRegistrationForm (registration_page [] [] [] [] False) = Some ?fd"
    by (simp add: readRegistrationForm_def registration_page_def page_def blank_def trim_def)
  have rv: "\<not> fst (validateRegistrationForm ?fd (registration_page [] [] [] [] False))"
    by (simp add: fst_validateRegistrationForm)
  have l: "readLoginForm (login_page [] [] False) = Some ([], [], False)"
    by (simp add: readLoginForm_def login_page_def page_def blank_def trim_def)
  have lv: "\<not> fst (validateLoginForm [] [] (login_page [] [] False))"
    by (simp add: fst_validateLoginForm)
  have f: "document (reset_page []) (ById ''forgotEmail'') = Some blank"
    by (simp add: reset_page_def page_def blank_def)
  have fv: "\<not> fst (validateEmail (Str (trim (val blank))) (Some ''forgotEmailError'')
                   (reset_page []))"
    by (simp add: blank_def trim_def test_emailRegex email_pattern_def)
  show ?thesis
    using invalid_submission_stays_idle
        [of "registration_page [] [] [] [] False" ?fd "[]" "[]" False blank]
      invalid_submission_stays_idle [of "login_page [] [] False" ?fd "[]" "[]" False blank]
      invalid_submission_stays_idle [of "reset_page []" ?fd "[]" "[]" False blank]
      r rv l lv f fv
    by blast
qed

text \<open>
  C6. The claim reads: a valid registration whose simulated call resolves gives a
  success notification and then a navigation to the login page with the submitted
  username in the login username field. The source does show the notification and does
  assign the location, but it writes the username to \<open>#loginUsername\<close> of the document
  the registration script runs in. On a registration page of its own, valid and with
  the terms accepted: the handler returns normally, the resolved call appends the
  success notification, and the timer sets the location to \<open>login.html\<close> and throws,
  with no login username field written.
\<close>

theorem registration_prefill_missed:
  "\<exists>s1 s2 s3.
      handleRegister (registration_html (js ''john123'') (js ''user@example.com'')
         (js ''password123'') (js ''password123'') True) = (Normal, s1)
      \<and> fire 0 False s1 = (Normal, s2)
      \<and> notifications s2 = [success_notification]
      \<and> fire 1 False s2 = (Throw, s3)
      \<and> href s3 = ''login.html''
      \<and> document s3 (ById ''loginUsername'') = None"
proof -
  let ?s = "registration_html (js ''john123'') (js ''user@example.com'')
         (js ''password123'') (js ''password123'') True"
  let ?fd = "\<lparr>username = js ''john123'', email = js ''user@example.com'',
              password = js ''password123'', confirmPassword = js ''password123'',
              acceptTerms = True\<rparr>"
  have r: "readRegistrationForm ?s = Some ?fd"
    by (simp add: readRegistrationForm_def registration_html_def page_def blank_def trim_def
        js_def cls_space_def isWhiteSpace_def isLineTerminator_def)
  have u: "fst (validateUsername (Str (username ?fd)) None ?s)"
    by (simp add: test_usernameRegex js_def cls_word_def)
  have e: "fst (validateEmail (Str (email ?fd)) None ?s)"
    by (simp add: emailRegex_def test_def js_def cls_not_space_at_def cls_at_def
        cls_period_def cls_space_def isWhiteSpace_def isLineTerminator_def)
  have p: "fst (validatePassword (Str (password ?fd)) None ?s)"
    by (simp add: passwordRegex_def test_def js_def cls_letter_def cls_digit_def
        cls_dot_def isLineTerminator_def)
  have b: "present (button_parts ''registerBtn'') ?s"
    by (simp add: present_def button_parts_def registration_html_def page_def chrome_def)
  have c: "document ?s (ById ''notificationContainer'') \<noteq> None"
    by (simp add: registration_html_def page_def chrome_def)
  have t: "timers ?s = []" "notifications ?s = []"
    by (simp_all add: registration_html_def page_def)
  have n: "document ?s (ById ''loginUsername'') = None"
    by (simp add: registration_html_def page_def chrome_def)
  from registration_success_flow [of ?s ?fd, OF r u e p _ _ b c]
  obtain s1 s2 where f:
    "handleRegister ?s = (Normal, s1)"
    "fire 0 False s1 = (Normal, s2)"
    "notifications s2 = [success_notification]"
    "timers s2 = [(5000, RemoveNotification success_notification),
                  (1500, GoLoginPrefill (js ''john123''))]"
    "\<forall>r. (document s2 r = None) = (document ?s r = None)"
    unfolding t by auto
  let ?s2' = "s2\<lparr>timers := [(5000, RemoveNotification success_notification)]\<rparr>"
  have "document ?s2' (ById ''loginUsername'') = None"
    using f(5) n by simp
  then have "run_task (GoLoginPrefill (js ''john123'')) False ?s2' = (Throw, goToLogin ?s2')"
    by (rule prefill_without_login_field)
  then have h3: "fire 1 False s2 = (Throw, goToLogin ?s2')"
    using f(4) by (simp add: fire_def)
  have hr: "href (goToLogin ?s2') = ''login.html''" by (simp add: goToLogin_def)
  have d: "document (goToLogin ?s2') (ById ''loginUsername'') = None"
    using f(5) n by (simp add: goToLogin_def)
  from f(1-3) h3 hr d show ?thesis by blast
qed

text \<open>
  C7. With the error element of the confirmation on the page: the reactive check
  \<open>validatePasswordConfirm\<close> clears the error when the typed confirmation equals the
  value of the password field, and shows \<open>Passwords do not match\<close> when the two differ
  and are non-empty; the confirmation branch of \<open>validateRegistrationForm\<close> does the
  same with the two strings of the form data, and then the form is invalid.
\<close>

theorem confirm_password_check:
  "(document s (ById ''registerPassword'') = Some pe
      \<and> document s (ById ''confirmPasswordError'') \<noteq> None \<longrightarrow>
      (c = val pe \<longrightarrow>
         fst (validatePasswordConfirm c s) = Normal
         \<and> fieldError ''confirmPasswordError'' (snd (validatePasswordConfirm c s))
             = Some ([], False))
      \<and> (c \<noteq> val pe \<and> c \<noteq> [] \<and> val pe \<noteq> [] \<longrightarrow>
         fieldError ''confirmPasswordError'' (snd (validatePasswordConfirm c s))
           = Some (js ''Passwords do not match'', True)))
   \<and> (document s (ById ''confirmPasswordError'') \<noteq> None \<longrightarrow>
      (confirmPassword fd = password fd \<longrightarrow>
         fieldError ''confirmPasswordError'' (snd (validateRegistrationForm fd s))
           = Some ([], False))
      \<and> (confirmPassword fd \<noteq> password fd \<and> confirmPassword fd \<noteq> [] \<and> password fd \<noteq> [] \<longrightarrow>
         fieldError ''confirmPasswordError'' (snd (validateRegistrationForm fd s))
           = Some (js ''Passwords do not match'', True)
         \<and> \<not> fst (validateRegistrationForm fd s)))"
proof (intro conjI impI)
  assume a: "document s (ById ''registerPassword'') = Some pe
      \<and> document s (ById ''confirmPasswordError'') \<noteq> None"
  {
    assume "c = val pe"
    with a show "fst (validatePasswordConfirm c s) = Normal"
      by (auto simp: validatePasswordConfirm_def)
    from \<open>c = val pe\<close> a
    show "fieldError ''confirmPasswordError'' (snd (validatePasswordConfirm c s))
             = Some ([], False)"
      by (auto simp: validatePasswordConfirm_def fieldError_def)
  }
  {
    assume "c \<noteq> val pe \<and> c \<noteq> [] \<and> val pe \<noteq> []"
    with a show "fieldError ''confirmPasswordError'' (snd (validatePasswordConfirm c s))
           = Some (js ''Passwords do not match'', True)"
      by (auto simp: validatePasswordConfirm_def fieldError_def)
  }
next
  let ?s3 = "snd (validatePassword (Str (password fd)) (Some ''registerPasswordError'')
         (snd (validateEmail (Str (email fd)) (Some ''registerEmailError'')
           (snd (validateUsername (Str (username fd)) (Some ''registerUsernameError'') s)))))"
  assume a: "document s (ById ''confirmPasswordError'') \<noteq> None"
  have "touches_only ({ById ''registerUsernameError''} \<union> {ById ''registerEmailError''}
          \<union> {ById ''registerPasswordError''}) s ?s3"
    by (rule touches_only_trans [OF touches_only_trans
          [OF touches_validateUsername touches_validateEmail] touches_validatePassword])
  with a have ex: "document ?s3 (ById ''confirmPasswordError'') \<noteq> None"
    by (simp add: touches_only_def)
  {
    assume "confirmPassword fd = password fd"
    with ex show "fieldError ''confirmPasswordError'' (snd (validateRegistrationForm fd s))
           = Some ([], False)"
      unfolding snd_validateRegistrationForm
      by (auto simp: fieldError_def terms_step_def confirm_step_def)
  }
  {
    assume b: "confirmPassword fd \<noteq> password fd \<and> confirmPassword fd \<noteq> [] \<and> password fd \<noteq> []"
    with ex show "fieldError ''confirmPasswordError'' (snd (validateRegistrationForm fd s))
           = Some (js ''Passwords do not match'', True)"
      unfolding snd_validateRegistrationForm
      by (auto simp: fieldError_def terms_step_def confirm_step_def)
    from b show "\<not> fst (validateRegistrationForm fd s)"
      by (auto simp: fst_validateRegistrationForm)
  }
qed

theorem confirm_password_check_witness:
  "fieldError ''confirmPasswordError''
     (snd (validatePasswordConfirm (js ''abc'')
        (registration_page [] [] (js ''abc'') (js ''abc'') False))) = Some ([], False)
   \<and> fieldError ''confirmPasswordError''
     (snd (validatePasswordConfirm (js ''abd'')
        (registration_page [] [] (js ''abc'') (js ''abd'') False)))
       = Some (js ''Passwords do not match'', True)
   \<and> fieldError ''confirmPasswordError''
     (snd (validateRegistrationForm
        \<lparr>username = [], email = [], password = js ''abc'', confirmPassword = js ''abc'',
          acceptTerms = False\<rparr>
        (registration_page [] [] (js ''abc'') (js ''abc'') False))) = Some ([], False)
   \<and> fieldError ''confirmPasswordError''
     (snd (validateRegistrationForm
        \<lparr>username = [], email = [], password = js ''abc'', confirmPassword = js ''abd'',
          acceptTerms = False\<rparr>
        (registration_page [] [] (js ''abc'') (js ''abd'') False)))
       = Some (js ''Passwords do not match'', True)"
proof -
  have d: "document (registration_page [] [] (js ''abc'') c False) (ById ''registerPassword'')
             = Some (blank\<lparr>val := js ''abc''\<rparr>)"
    "document (registration_page [] [] (js ''abc'') c False) (ById ''confirmPasswordError'')
             \<noteq> None" for c
    by (simp_all add: registration_page_def page_def)
  have n: "js ''abd'' \<noteq> js ''abc''" "js ''abd'' \<noteq> []" "js ''abc'' \<noteq> []"
    by (simp_all add: js_def)
  show ?thesis
    using confirm_password_check
      [of "registration_page [] [] (js ''abc'') (js ''abc'') False"
          "blank\<lparr>val := js ''abc''\<rparr>" "js ''abc''"
          "\<lparr>username = [], email = [], password = js ''abc'', confirmPassword = js ''abc'',
            acceptTerms = False\<rparr>"]
      confirm_password_check
      [of "registration_page [] [] (js ''abc'') (js ''abd'') False"
          "blank\<lparr>val := js ''abc''\<rparr>" "js ''abd''"
          "\<lparr>username = [], email = [], password = js ''abc'', confirmPassword = js ''abd'',
            acceptTerms = False\<rparr>"]
      d [of "js ''abc''"] d [of "js ''abd''"] n
    by simp
qed

text \<open>
  C8. Clearing an error element that is already clear (empty text, no class \<open>show\<close>)
  leaves the page as it is, and clearing twice is clearing once; showing the same
  message twice on the same element gives the state that showing it once gives, in
  which the element, when it is on the page, holds that one message and is visible.
\<close>

theorem field_error_idempotent:
  "(fieldError i s = Some ([], False) \<longrightarrow> clearFieldError i s = s)
   \<and> showFieldError i m (showFieldError i m s) = showFieldError i m s
   \<and> clearFieldError i (clearFieldError i s) = clearFieldError i s
   \<and> (document s (ById i) \<noteq> None \<longrightarrow>
        fieldError i (showFieldError i m (showFieldError i m s)) = Some (m, True))"
proof (intro conjI impI)
  assume a: "fieldError i s = Some ([], False)"
  show "clearFieldError i s = s"
    unfolding clearFieldError_def
  proof (rule modify_id)
    fix e assume "document s (ById i) = Some e"
    with a have "textContent e = []" "''show'' \<notin> classList e"
      by (simp_all add: fieldError_def)
    then show "e\<lparr>textContent := [], classList := classList e - {''show''}\<rparr> = e"
      by (cases e) simp
  qed
next
  show "showFieldError i m (showFieldError i m s) = showFieldError i m s"
    by (simp add: showFieldError_def modify_modify comp_def)
next
  show "clearFieldError i (clearFieldError i s) = clearFieldError i s"
    by (simp add: clearFieldError_def modify_modify comp_def)
next
  assume "document s (ById i) \<noteq> None"
  then show "fieldError i (showFieldError i m (showFieldError i m s)) = Some (m, True)"
    by (auto simp: fieldError_def showFieldError_def)
qed

theorem field_error_idempotent_witness:
  "fieldError ''termsError'' (login_page [] [] False) = None
   \<and> fieldError ''loginUsernameError'' (login_page [] [] False) = Some ([], False)
   \<and> clearFieldError ''loginUsernameError'' (login_page [] [] False) = login_page [] [] False
   \<and> fieldError ''loginUsernameError''
       (showFieldError ''loginUsernameError'' (js ''Username is required'')
          (showFieldError ''loginUsernameError'' (js ''Username is required'')
             (login_page [] [] False)))
       = Some (js ''Username is required'', True)"
proof -
  have a: "fieldError ''loginUsernameError'' (login_page [] [] False) = Some ([], False)"
    "fieldError ''termsError'' (login_page [] [] False) = None"
    by (simp_all add: fieldError_def login_page_def page_def blank_def chrome_def)
  have b: "document (login_page [] [] False) (ById ''loginUsernameError'') \<noteq> None"
    by (simp add: login_page_def page_def)
  show ?thesis
    using field_error_idempotent
      [of "''loginUsernameError''" "login_page [] [] False" "js ''Username is required''"] a b
    by blast
qed

text \<open>
  C9. The two textual definitions of each validator in the class body are the same
  function: same result and same effect on the page, for every argument, error
  element and page.
\<close>

theorem duplicate_definitions_equal:
  "validateUsername_1st = validateUsername \<and> validateEmail_1st = validateEmail
   \<and> validatePassword_1st = validatePassword
   \<and> validatePasswordConfirm_1st = validatePasswordConfirm"
  by (simp add: fun_eq_iff validateUsername_1st_def validateUsername_def
      validateEmail_1st_def validateEmail_def validatePassword_1st_def validatePassword_def
      validatePasswordConfirm_1st_def validatePasswordConfirm_def)

text \<open>
  C10. \<open>validateLoginForm\<close> returns true if and only if the username and the password
  are both non-empty. The format rule of usernames and the strength rule of passwords
  play no part: \<open>a\<close> and \<open>b\<close> pass at login, and fail the two validators.
\<close>

theorem validateLoginForm_nonempty:
  "fst (validateLoginForm u p s) = (u \<noteq> [] \<and> p \<noteq> [])
   \<and> fst (validateLoginForm (js ''a'') (js ''b'') s)
   \<and> \<not> fst (validateUsername (Str (js ''a'')) None s)
   \<and> \<not> fst (validatePassword (Str (js ''b'')) None s)"
  by (simp add: fst_validateLoginForm test_usernameRegex js_def)

end
